theory Spec2Isabelle
  imports Complex_Main
begin

section \<open>Orbital dynamics of phoebe.dynamics.nbody\<close>

text \<open>
  The module \<^verbatim>\<open>phoebe/dynamics/nbody.py\<close> converts a Cartesian state into Keplerian
  elements (\<^verbatim>\<open>keplerian_from_cartesian\<close>) and drives two N-body back ends
  (\<^verbatim>\<open>dynamics_from_bundle_rebound\<close>, \<^verbatim>\<open>dynamics_bs\<close>).

  Numbers: the source computes with numpy \<^verbatim>\<open>float64\<close>. The embedding computes with
  \<^typ>\<open>real\<close>, so it follows the branches and formulas of the source and leaves
  rounding out. Where the source divides by zero numpy yields \<^verbatim>\<open>inf\<close> or \<^verbatim>\<open>nan\<close>,
  which \<^typ>\<open>real\<close> does not have (\<open>x / 0 = 0\<close> in HOL): statements whose branch
  depends on such a quotient assume the divisor is not zero.
\<close>

subsection \<open>Errors\<close>

text \<open>
  The exceptions the module raises. \<^verbatim>\<open>NotImplementedError\<close> is raised by
  \<^verbatim>\<open>keplerian_from_cartesian\<close> (line 92), \<^verbatim>\<open>ImportError\<close> by
  \<^verbatim>\<open>dynamics_from_bundle_rebound\<close> (lines 211 and 214), \<^verbatim>\<open>ZeroDivisionError\<close>
  by a division of Python floats by zero, \<^verbatim>\<open>IndexError\<close> by an index out of range,
  and \<^verbatim>\<open>RuntimeError\<close> is what the root finder of \<^verbatim>\<open>scipy.optimize\<close> raises
  when it does not converge.
\<close>

datatype error =
  NotImplementedError | ImportError | ZeroDivisionError | IndexError | RuntimeError

subsection \<open>Three-component vectors (numpy arrays of shape (3,))\<close>

type_synonym vec3 = "real \<times> real \<times> real"

fun vx0 :: "vec3 \<Rightarrow> real" where "vx0 (a0, a1, a2) = a0"
fun vx1 :: "vec3 \<Rightarrow> real" where "vx1 (a0, a1, a2) = a1"
fun vx2 :: "vec3 \<Rightarrow> real" where "vx2 (a0, a1, a2) = a2"

fun dot :: "vec3 \<Rightarrow> vec3 \<Rightarrow> real" where
  "dot (a0, a1, a2) (b0, b1, b2) = a0 * b0 + a1 * b1 + a2 * b2"

fun cross :: "vec3 \<Rightarrow> vec3 \<Rightarrow> vec3" where
  "cross (a0, a1, a2) (b0, b1, b2) =
     (a1 * b2 - a2 * b1, a2 * b0 - a0 * b2, a0 * b1 - a1 * b0)"

definition linalg_norm :: "vec3 \<Rightarrow> real" where
  "linalg_norm a = sqrt (dot a a)"

fun smul :: "real \<Rightarrow> vec3 \<Rightarrow> vec3" where
  "smul k (a0, a1, a2) = (k * a0, k * a1, k * a2)"

fun vsub :: "vec3 \<Rightarrow> vec3 \<Rightarrow> vec3" where
  "vsub (a0, a1, a2) (b0, b1, b2) = (a0 - b0, a1 - b1, a2 - b2)"

fun vdiv :: "vec3 \<Rightarrow> real \<Rightarrow> vec3" where
  "vdiv (a0, a1, a2) k = (a0 / k, a1 / k, a2 / k)"

subsection \<open>keplerian_from_cartesian (lines 64-155)\<close>

text \<open>The nine values of the returned tuple, in the order of line 155.\<close>

record elements =
  k_a :: real
  k_e :: real
  k_period :: real
  k_incl :: real
  k_per0 :: real
  k_long_an :: real
  k_true_anom :: real
  k_mean_anom :: real
  k_t0_perpass :: real

text \<open>Lines 82-89: the vectors \<open>h_v\<close>, \<open>n_v\<close>, \<open>e_v\<close> and the derived eccentricity.\<close>

definition kfc_h_v :: "vec3 \<Rightarrow> vec3 \<Rightarrow> vec3" where
  "kfc_h_v r_v v_v = cross r_v v_v"

definition kfc_n_v :: "vec3 \<Rightarrow> vec3 \<Rightarrow> vec3" where
  "kfc_n_v r_v v_v = cross (0, 0, 1) (kfc_h_v r_v v_v)"

definition kfc_e_v :: "vec3 \<Rightarrow> vec3 \<Rightarrow> real \<Rightarrow> vec3" where
  "kfc_e_v r_v v_v mu =
     (let r = linalg_norm r_v; v = linalg_norm v_v
      in vdiv (vsub (smul (v ^ 2 - mu / r) r_v) (smul (dot r_v v_v) v_v)) mu)"

definition kfc_e :: "vec3 \<Rightarrow> vec3 \<Rightarrow> real \<Rightarrow> real" where
  "kfc_e r_v v_v mu = linalg_norm (kfc_e_v r_v v_v mu)"

text \<open>Line 97: the inclination.\<close>

definition kfc_incl :: "vec3 \<Rightarrow> vec3 \<Rightarrow> real" where
  "kfc_incl r_v v_v =
     (let h_v = kfc_h_v r_v v_v; h = linalg_norm h_v in arccos (vx2 h_v / h))"

text \<open>Lines 99-122: \<open>long_an\<close> and the first value of \<open>per0\<close>.\<close>

definition kfc_long_an :: "vec3 \<Rightarrow> vec3 \<Rightarrow> real" where
  "kfc_long_an r_v v_v =
     (let n_v = kfc_n_v r_v v_v; n = linalg_norm n_v; incl = kfc_incl r_v v_v
      in if \<bar>incl\<bar> < 1 / 10 ^ 12 then 0
         else (let long_an = arccos (vx0 n_v / n);
                   long_an = (if vx1 n_v < 0 then 2 * pi - long_an else long_an)
               in long_an + pi))"

definition kfc_per0_first :: "vec3 \<Rightarrow> vec3 \<Rightarrow> real \<Rightarrow> real" where
  "kfc_per0_first r_v v_v mu =
     (let n_v = kfc_n_v r_v v_v; n = linalg_norm n_v;
          e_v = kfc_e_v r_v v_v mu; e = linalg_norm e_v; incl = kfc_incl r_v v_v
      in if \<bar>incl\<bar> < 1 / 10 ^ 12
         then (if e = 0 then 0 else arccos (vx0 e_v / e))
         else (if e = 0 then 0 else arccos (dot n_v e_v / (n * e))))"

text \<open>Lines 126-143: the final \<open>per0\<close> and \<open>true_anom\<close>.\<close>

definition kfc_per0 :: "vec3 \<Rightarrow> vec3 \<Rightarrow> real \<Rightarrow> real" where
  "kfc_per0 r_v v_v mu =
     (let e_v = kfc_e_v r_v v_v mu; e = linalg_norm e_v;
          per0 = kfc_per0_first r_v v_v mu
      in if e < 1 / 10 ^ 6 then per0
         else (if vx2 e_v < 0 \<and> e > 0 then 2 * pi - per0 else per0))"

definition kfc_true_anom :: "vec3 \<Rightarrow> vec3 \<Rightarrow> real \<Rightarrow> real" where
  "kfc_true_anom r_v v_v mu =
     (let r = linalg_norm r_v;
          n_v = kfc_n_v r_v v_v; n = linalg_norm n_v;
          e_v = kfc_e_v r_v v_v mu; e = linalg_norm e_v; incl = kfc_incl r_v v_v
      in if e < 1 / 10 ^ 6
         then (if \<bar>incl\<bar> < 1 / 10 ^ 12
               then (let true_anom = arccos (vx0 r_v / r)
                     in if vx0 v_v > 0 then 2 * pi - true_anom else true_anom)
               else (let true_anom = arccos (dot n_v r_v / (n * r))
                     in if dot n_v v_v > 0 then 2 * pi - true_anom else true_anom))
         else (let true_anom = arccos (dot e_v r_v / (e * r))
               in if dot r_v v_v < 0 then 2 * pi - true_anom else true_anom))"

text \<open>
  The whole function. \<open>mass_tot\<close>, \<open>t0\<close> and \<open>G\<close> are the arguments of the source;
  the default of \<open>G\<close> is a constant of the units package and is passed explicitly.
\<close>

definition keplerian_from_cartesian ::
  "vec3 \<Rightarrow> vec3 \<Rightarrow> real \<Rightarrow> real \<Rightarrow> real \<Rightarrow> error + elements" where
  "keplerian_from_cartesian positions velocities mass_tot t0 G =
     (let r_v = positions; r = linalg_norm r_v;
          v_v = velocities; v = linalg_norm v_v;
          mu = mass_tot * G;
          e = kfc_e r_v v_v mu
      in if e \<ge> 1 then Inl NotImplementedError
         else (let E = v ^ 2 / 2 - mu / r;
                   a = - mu / (2 * E);
                   incl = kfc_incl r_v v_v;
                   long_an = kfc_long_an r_v v_v;
                   per0 = kfc_per0 r_v v_v mu;
                   true_anom = kfc_true_anom r_v v_v mu;
                   period = sqrt ((4 * pi ^ 2 * a ^ 3) / (mass_tot * G));
                   mean_anom = true_anom - e * sin true_anom;
                   t0_perpass = t0 - (mean_anom * period) / (2 * pi)
               in Inr \<lparr>k_a = a, k_e = e, k_period = period, k_incl = incl,
                        k_per0 = per0, k_long_an = long_an, k_true_anom = true_anom,
                        k_mean_anom = mean_anom, k_t0_perpass = t0_perpass\<rparr>))"

subsection \<open>The eccentric-anomaly relation of the specification\<close>

text \<open>
  The eccentric-anomaly relation in the specification's words, kept apart from the code:
  the eccentric anomaly that belongs to a true anomaly \<open>nu\<close> in \<open>[0, 2\<pi>]\<close> and an
  eccentricity \<open>e < 1\<close> has \<open>cos E = (e + cos nu) / (1 + e cos nu)\<close> and lies in the
  same half turn as \<open>nu\<close>; the mean anomaly is \<open>E - e sin E\<close>.
\<close>

definition spec_eccentric_anom :: "real \<Rightarrow> real \<Rightarrow> real" where
  "spec_eccentric_anom e nu =
     (let E0 = arccos ((e + cos nu) / (1 + e * cos nu))
      in if nu \<le> pi then E0 else 2 * pi - E0)"

definition spec_mean_anom :: "real \<Rightarrow> real \<Rightarrow> real" where
  "spec_mean_anom e nu =
     (let E_anom = spec_eccentric_anom e nu in E_anom - e * sin E_anom)"

subsection \<open>Inputs without a zero divisor\<close>

text \<open>
  The inputs on which no quotient of lines 88-97 has a zero divisor: there the
  \<^verbatim>\<open>float64\<close> computation has no \<^verbatim>\<open>inf\<close> or \<^verbatim>\<open>nan\<close> for these lines.
\<close>

definition kfc_defined :: "vec3 \<Rightarrow> vec3 \<Rightarrow> real \<Rightarrow> bool" where
  "kfc_defined r_v v_v mu \<longleftrightarrow>
     linalg_norm r_v \<noteq> 0 \<and> mu \<noteq> 0 \<and> linalg_norm (kfc_h_v r_v v_v) \<noteq> 0"

subsection \<open>Checked indexing\<close>

text \<open>Python's \<^verbatim>\<open>xs[i]\<close> for an index that is never negative here.\<close>

definition at_index :: "'a list \<Rightarrow> nat \<Rightarrow> error + 'a" where
  "at_index xs i = (if i < length xs then Inr (xs ! i) else Inl IndexError)"

fun map_err :: "('a \<Rightarrow> error + 'b) \<Rightarrow> 'a list \<Rightarrow> error + 'b list" where
  "map_err f [] = Inr []"
| "map_err f (x # xs) =
     (case f x of
        Inl e \<Rightarrow> Inl e
      | Inr y \<Rightarrow> (case map_err f xs of Inl e \<Rightarrow> Inl e | Inr ys \<Rightarrow> Inr (y # ys)))"

text \<open>\<^verbatim>\<open>A[j][i] = v\<close> on a list of arrays, for \<open>j\<close> and \<open>i\<close> in range.\<close>

definition set2 :: "'a list list \<Rightarrow> nat \<Rightarrow> nat \<Rightarrow> 'a \<Rightarrow> 'a list list" where
  "set2 A j i v = A[j := (A ! j)[i := v]]"

subsection \<open>The rebound driver: dynamics_from_bundle_rebound (lines 163-437)\<close>

text \<open>
  A particle and the simulation of the rebound library, with the attributes the source
  reads and writes: \<^verbatim>\<open>sim.t\<close>, \<^verbatim>\<open>sim.dt\<close>, \<^verbatim>\<open>sim.integrator\<close>, \<^verbatim>\<open>sim.particles\<close>
  (\<^verbatim>\<open>sim.N\<close> is their number), and whether \<^verbatim>\<open>add_gr_full\<close> was attached.
\<close>

record particle =
  p_m :: real
  p_x :: real
  p_y :: real
  p_z :: real
  p_vx :: real
  p_vy :: real
  p_vz :: real

record sim =
  sim_t :: real
  sim_dt :: real
  sim_integrator :: string
  sim_gr :: bool
  sim_particles :: "particle list"

text \<open>The attributes of rebound's orbit object that \<^verbatim>\<open>calculate_euler\<close> reads.\<close>

record orbit =
  orbit_d :: real
  orbit_a :: real
  orbit_P :: real
  orbit_f :: real
  orbit_omega :: real
  orbit_Omega :: real
  orbit_inc :: real
  orbit_e :: real
  orbit_T :: real

text \<open>The twelve values \<^verbatim>\<open>calculate_euler\<close> returns (line 295), in order.\<close>

record euler =
  eu_d :: real
  eu_F :: real
  eu_etheta :: real
  eu_elongan :: real
  eu_eincl :: real
  eu_period :: real
  eu_sma :: real
  eu_ecc :: real
  eu_per0 :: real
  eu_long_an :: real
  eu_incl :: real
  eu_t0_perpass :: real

text \<open>
  The state threaded through the run: the simulation, and a journal of the target
  times of the \<^verbatim>\<open>sim.integrate\<close> calls made so far, in order. The journal is kept by
  the model to state which integrations a run performs; the source has no such list.
\<close>

type_synonym run = "sim \<times> real list"

text \<open>
  What the function takes from outside the module. The three library calls are
  parameters: \<open>e_integrate t s\<close> is the simulation after \<^verbatim>\<open>sim.integrate(t)\<close>
  (\<^verbatim>\<open>exact_finish_time\<close> is true at line 225 and 380 and is rebound's default at
  line 235), \<open>e_newton f x0\<close> is \<^verbatim>\<open>scipy.optimize.newton(f, x0)\<close>, called with a
  function that changes the simulation and with no derivative, and
  \<open>e_calculate_orbit p primary\<close> is \<^verbatim>\<open>p.calculate_orbit(primary=primary)\<close>.
  The rest are the module's globals (\<open>e_can_rebound\<close>, \<open>e_can_reboundx\<close>), the speed
  of light in AU/d, and the values read from the bundle: the compute options, the
  system's \<open>t0\<close>, the arguments of the \<^verbatim>\<open>sim.add\<close> calls of line 332 in the order of
  the stars, the rotation periods and the sibling indices of every star.
\<close>

record env =
  e_integrate :: "real \<Rightarrow> sim \<Rightarrow> sim"
  e_newton :: "(real \<Rightarrow> run \<Rightarrow> (error + real) \<times> run) \<Rightarrow> real \<Rightarrow> run \<Rightarrow> (error + real) \<times> run"
  e_calculate_orbit :: "particle \<Rightarrow> particle \<Rightarrow> orbit"
  e_can_rebound :: bool
  e_can_reboundx :: bool
  e_c_AU_d :: real
  e_stepsize :: real
  e_ltte :: bool
  e_gr :: bool
  e_integrator :: string
  e_t0 :: real
  e_particles0 :: "particle list"
  e_rotperiods :: "real list"
  e_sibling_Ns :: "nat list list"

definition sim_integrate :: "env \<Rightarrow> real \<Rightarrow> run \<Rightarrow> run" where
  "sim_integrate P t st = (e_integrate P t (fst st), snd st @ [t])"

text \<open>Lines 222-230: the residual handed to the root finder.\<close>

definition residual :: "env \<Rightarrow> nat \<Rightarrow> real \<Rightarrow> real \<Rightarrow> run \<Rightarrow> (error + real) \<times> run" where
  "residual P particle_N t_obs t st =
     (let st1 = (if sim_t (fst st) \<noteq> t then sim_integrate P t st else st)
      in case at_index (sim_particles (fst st1)) particle_N of
           Inl err \<Rightarrow> (Inl err, st1)
         | Inr p \<Rightarrow>
             (let ltte_dt = p_z p / e_c_AU_d P;
                  t_barycenter = t - ltte_dt
              in (Inr (t_barycenter - t_obs), st1)))"

text \<open>Lines 219-237.\<close>

definition particle_ltte :: "env \<Rightarrow> nat \<Rightarrow> real \<Rightarrow> run \<Rightarrow> (error + particle) \<times> run" where
  "particle_ltte P particle_N t_obs st =
     (case e_newton P (residual P particle_N t_obs) t_obs st of
        (Inl err, st1) \<Rightarrow> (Inl err, st1)
      | (Inr t_barycenter, st1) \<Rightarrow>
          (let st2 = (if sim_t (fst st1) \<noteq> t_barycenter
                      then sim_integrate P t_barycenter st1 else st1)
           in (at_index (sim_particles (fst st2)) particle_N, st2)))"

text \<open>Lines 239-248. \<^verbatim>\<open>1./m\<close> divides Python floats: a zero \<open>m\<close> raises.\<close>

definition com_phantom_particle :: "particle list \<Rightarrow> error + particle" where
  "com_phantom_particle particles =
     (let m = sum_list (map p_m particles)
      in if m = 0 then Inl ZeroDivisionError
         else Inr \<lparr>p_m = m,
                   p_x = 1 / m * sum_list (map (\<lambda>p. p_m p * p_x p) particles),
                   p_y = 1 / m * sum_list (map (\<lambda>p. p_m p * p_y p) particles),
                   p_z = 1 / m * sum_list (map (\<lambda>p. p_m p * p_z p) particles),
                   p_vx = 1 / m * sum_list (map (\<lambda>p. p_m p * p_vx p) particles),
                   p_vy = 1 / m * sum_list (map (\<lambda>p. p_m p * p_vy p) particles),
                   p_vz = 1 / m * sum_list (map (\<lambda>p. p_m p * p_vz p) particles)\<rparr>)"

text \<open>
  Lines 250-295. \<^verbatim>\<open>orbit.d / orbit.a\<close> divides Python floats and raises on a zero
  divisor; the rotation periods come from the bundle and are taken to be nonzero.
\<close>

definition calculate_euler :: "env \<Rightarrow> sim \<Rightarrow> nat \<Rightarrow> error + euler" where
  "calculate_euler P s j =
     (case at_index (sim_particles s) j of
        Inl err \<Rightarrow> Inl err
      | Inr particle \<Rightarrow>
     (case at_index (e_sibling_Ns P) j of
        Inl err \<Rightarrow> Inl err
      | Inr sibs \<Rightarrow>
     (case map_err (at_index (sim_particles s)) sibs of
        Inl err \<Rightarrow> Inl err
      | Inr sibling_particles \<Rightarrow>
     (case com_phantom_particle sibling_particles of
        Inl err \<Rightarrow> Inl err
      | Inr com_particle \<Rightarrow>
          (let orbit = e_calculate_orbit P particle com_particle
           in if orbit_a orbit = 0 then Inl ZeroDivisionError
              else (case at_index (e_rotperiods P) j of
                      Inl err \<Rightarrow> Inl err
                    | Inr rotperiod \<Rightarrow>
                        Inr \<lparr>eu_d = orbit_d orbit / orbit_a orbit,
                             eu_F = orbit_P orbit / rotperiod,
                             eu_etheta = orbit_f orbit + orbit_omega orbit + pi,
                             eu_elongan = orbit_Omega orbit - pi,
                             eu_eincl = orbit_inc orbit,
                             eu_period = orbit_P orbit,
                             eu_sma = orbit_a orbit,
                             eu_ecc = orbit_e orbit,
                             eu_per0 = orbit_omega orbit,
                             eu_long_an = orbit_Omega orbit - pi,
                             eu_incl = orbit_inc orbit,
                             eu_t0_perpass = orbit_T orbit\<rparr>))))))"

text \<open>
  The arrays filled by the loop (lines 352-374), indexed \<open>[j][i]\<close> by star and time.
  The twelve Euler arrays of the source are always written together at one index, and
  are kept here as one array of the twelve values.
\<close>

record arrays =
  a_xs :: "real list list"
  a_ys :: "real list list"
  a_zs :: "real list list"
  a_vxs :: "real list list"
  a_vys :: "real list list"
  a_vzs :: "real list list"
  a_eulers :: "euler list list"

definition euler_zero :: euler where
  "euler_zero = \<lparr>eu_d = 0, eu_F = 0, eu_etheta = 0, eu_elongan = 0, eu_eincl = 0,
                  eu_period = 0, eu_sma = 0, eu_ecc = 0, eu_per0 = 0, eu_long_an = 0,
                  eu_incl = 0, eu_t0_perpass = 0\<rparr>"

definition arrays_zero :: "nat \<Rightarrow> nat \<Rightarrow> arrays" where
  "arrays_zero N ntimes =
     \<lparr>a_xs = replicate N (replicate ntimes 0), a_ys = replicate N (replicate ntimes 0),
      a_zs = replicate N (replicate ntimes 0), a_vxs = replicate N (replicate ntimes 0),
      a_vys = replicate N (replicate ntimes 0), a_vzs = replicate N (replicate ntimes 0),
      a_eulers = replicate N (replicate ntimes euler_zero)\<rparr>"

text \<open>Lines 389-406: the Euler values of star \<open>j\<close> at time index \<open>i\<close>.\<close>

definition store_euler :: "env \<Rightarrow> bool \<Rightarrow> nat \<Rightarrow> nat \<Rightarrow> sim \<Rightarrow> arrays \<Rightarrow> error + arrays" where
  "store_euler P return_roche_euler i j s out =
     (if return_roche_euler
      then (case calculate_euler P s j of
              Inl err \<Rightarrow> Inl err
            | Inr eu \<Rightarrow>
                if j < length (a_eulers out)
                then Inr (out\<lparr>a_eulers := set2 (a_eulers out) j i eu\<rparr>)
                else Inl IndexError)
      else Inr out)"

text \<open>Lines 423-428.\<close>

definition store_particle :: "nat \<Rightarrow> nat \<Rightarrow> particle \<Rightarrow> arrays \<Rightarrow> error + arrays" where
  "store_particle i j p out =
     (if j < length (a_xs out)
      then Inr (out\<lparr>a_xs := set2 (a_xs out) j i (p_x p),
                    a_ys := set2 (a_ys out) j i (p_y p),
                    a_zs := set2 (a_zs out) j i (p_z p),
                    a_vxs := set2 (a_vxs out) j i (p_vx p),
                    a_vys := set2 (a_vys out) j i (p_vy p),
                    a_vzs := set2 (a_vzs out) j i (p_vz p)\<rparr>)
      else Inl IndexError)"

text \<open>Lines 386-428: the body of the inner loop, for star \<open>j\<close>.\<close>

definition body_step ::
  "env \<Rightarrow> bool \<Rightarrow> nat \<Rightarrow> real \<Rightarrow> nat \<Rightarrow> run \<times> arrays \<Rightarrow> (error + arrays) \<times> run" where
  "body_step P return_roche_euler i time j sa =
     (let st = fst sa; out = snd sa
      in case store_euler P return_roche_euler i j (fst st) out of
           Inl err \<Rightarrow> (Inl err, st)
         | Inr out1 \<Rightarrow>
             (case (if e_ltte P then particle_ltte P j time st
                    else (at_index (sim_particles (fst st)) j, st)) of
                (Inl err, st1) \<Rightarrow> (Inl err, st1)
              | (Inr p, st1) \<Rightarrow> (store_particle i j p out1, st1)))"

fun body_loop ::
  "env \<Rightarrow> bool \<Rightarrow> nat \<Rightarrow> real \<Rightarrow> nat list \<Rightarrow> run \<times> arrays \<Rightarrow> (error + arrays) \<times> run" where
  "body_loop P rre i time [] sa = (Inr (snd sa), fst sa)"
| "body_loop P rre i time (j # js) sa =
     (case body_step P rre i time j sa of
        (Inl err, st1) \<Rightarrow> (Inl err, st1)
      | (Inr out1, st1) \<Rightarrow> body_loop P rre i time js (st1, out1))"

text \<open>
  Lines 376-428: the loop over the times (\<open>time_seq\<close> is the source's \<^verbatim>\<open>times\<close>, a
  name HOL has taken); \<^verbatim>\<open>range(sim.N)\<close> is read after the integration to \<open>time\<close>.
\<close>

fun time_loop ::
  "env \<Rightarrow> bool \<Rightarrow> nat \<Rightarrow> real list \<Rightarrow> run \<times> arrays \<Rightarrow> (error + arrays) \<times> run" where
  "time_loop P rre i [] sa = (Inr (snd sa), fst sa)"
| "time_loop P rre i (time # time_seq) sa =
     (let st1 = sim_integrate P time (fst sa)
      in case body_loop P rre i time [0..<length (sim_particles (fst st1))] (st1, snd sa) of
           (Inl err, st2) \<Rightarrow> (Inl err, st2)
         | (Inr out1, st2) \<Rightarrow> time_loop P rre (Suc i) time_seq (st2, out1))"

text \<open>
  The returned tuple: seven values, or nineteen when \<^verbatim>\<open>return_roche_euler\<close> is set
  (the twelve Euler arrays are \<open>r_eulers\<close>).
\<close>

record rebound_out =
  r_times :: "real list"
  r_xs :: "real list list"
  r_ys :: "real list list"
  r_zs :: "real list list"
  r_vxs :: "real list list"
  r_vys :: "real list list"
  r_vzs :: "real list list"
  r_eulers :: "euler list list option"

text \<open>
  The whole function: the outcome, and the journal of the integrations performed.
  Lines 210-214 come before the simulation is created (line 299).
\<close>

definition dynamics_from_bundle_rebound ::
  "env \<Rightarrow> real list \<Rightarrow> bool \<Rightarrow> (error + rebound_out) \<times> real list" where
  "dynamics_from_bundle_rebound P time_seq return_roche_euler =
     (if \<not> e_can_rebound P then (Inl ImportError, [])
      else if e_gr P \<and> \<not> e_can_reboundx P then (Inl ImportError, [])
      else (let times1 = map (\<lambda>t. t - e_t0 P) time_seq;
                s0 = \<lparr>sim_t = 0, sim_dt = e_stepsize P, sim_integrator = e_integrator P,
                      sim_gr = e_gr P, sim_particles = e_particles0 P\<rparr>;
                out0 = arrays_zero (length (e_particles0 P)) (length times1)
            in case time_loop P return_roche_euler 0 times1 ((s0, []), out0) of
                 (Inl err, st) \<Rightarrow> (Inl err, snd st)
               | (Inr out, st) \<Rightarrow>
                   (Inr \<lparr>r_times = times1, r_xs = a_xs out, r_ys = a_ys out,
                         r_zs = a_zs out, r_vxs = a_vxs out, r_vys = a_vys out,
                         r_vzs = a_vzs out,
                         r_eulers = (if return_roche_euler then Some (a_eulers out) else None)\<rparr>,
                    snd st)))"


subsection \<open>Instances of the library parameters\<close>

text \<open>
  Three simple instances of \<open>e_integrate\<close>, \<open>e_newton\<close> and \<open>e_calculate_orbit\<close>, on
  which the driver can be evaluated: particles in free motion, a secant iteration
  (the method \<^verbatim>\<open>scipy.optimize.newton\<close> runs when no derivative is passed, with its
  second starting point, tolerance 1.48e-8 and bound of 50 iterations), and an orbit
  whose \<open>d\<close> is the offset in \<open>x\<close> from the primary. They stand for the libraries in
  the examples only; the general statements are about every instance.
\<close>

definition free_integrate :: "real \<Rightarrow> sim \<Rightarrow> sim" where
  "free_integrate t s =
     s\<lparr>sim_t := t,
       sim_particles :=
         map (\<lambda>p. p\<lparr>p_x := p_x p + p_vx p * (t - sim_t s),
                      p_y := p_y p + p_vy p * (t - sim_t s),
                      p_z := p_z p + p_vz p * (t - sim_t s)\<rparr>) (sim_particles s)\<rparr>"

fun secant_iter ::
  "nat \<Rightarrow> (real \<Rightarrow> run \<Rightarrow> (error + real) \<times> run) \<Rightarrow> real \<Rightarrow> real \<Rightarrow> real \<Rightarrow> real \<Rightarrow> run
     \<Rightarrow> (error + real) \<times> run" where
  "secant_iter 0 f p0 q0 p1 q1 st = (Inl RuntimeError, st)"
| "secant_iter (Suc n) f p0 q0 p1 q1 st =
     (if q1 = q0 then (Inr ((p1 + p0) / 2), st)
      else (let p = p1 - q1 * (p1 - p0) / (q1 - q0)
            in if \<bar>p - p1\<bar> < 148 / 10 ^ 10 then (Inr p, st)
               else (case f p st of
                       (Inl err, st1) \<Rightarrow> (Inl err, st1)
                     | (Inr q, st1) \<Rightarrow> secant_iter n f p1 q1 p q st1)))"

definition secant_newton ::
  "(real \<Rightarrow> run \<Rightarrow> (error + real) \<times> run) \<Rightarrow> real \<Rightarrow> run \<Rightarrow> (error + real) \<times> run" where
  "secant_newton f x0 st =
     (let p0 = x0;
          p1 = (if x0 \<ge> 0 then x0 * (1 + 1 / 10 ^ 4) + 1 / 10 ^ 4
                else x0 * (1 + 1 / 10 ^ 4) - 1 / 10 ^ 4)
      in case f p0 st of
           (Inl err, st1) \<Rightarrow> (Inl err, st1)
         | (Inr q0, st1) \<Rightarrow>
             (case f p1 st1 of
                (Inl err, st2) \<Rightarrow> (Inl err, st2)
              | (Inr q1, st2) \<Rightarrow> secant_iter 50 f p0 q0 p1 q1 st2))"

definition offset_orbit :: "particle \<Rightarrow> particle \<Rightarrow> orbit" where
  "offset_orbit p primary =
     \<lparr>orbit_d = p_x p - p_x primary, orbit_a = 1, orbit_P = 1, orbit_f = 0,
      orbit_omega = 0, orbit_Omega = 0, orbit_inc = 0, orbit_e = 0, orbit_T = 0\<rparr>"

subsection \<open>The photodynam driver: dynamics_bs (lines 498-620)\<close>

text \<open>
  A two-dimensional numpy array: its shape and its cells. Indexing outside the shape
  raises \<^verbatim>\<open>IndexError\<close>; \<open>arr_T\<close> is the attribute \<^verbatim>\<open>.T\<close>, \<open>arr_map\<close> an elementwise
  operation.
\<close>

record array2 =
  shape0 :: nat
  shape1 :: nat
  cell :: "nat \<Rightarrow> nat \<Rightarrow> real"

definition arr_T :: "array2 \<Rightarrow> array2" where
  "arr_T A = \<lparr>shape0 = shape1 A, shape1 = shape0 A, cell = (\<lambda>i j. cell A j i)\<rparr>"

definition arr_map :: "(real \<Rightarrow> real) \<Rightarrow> array2 \<Rightarrow> array2" where
  "arr_map f A = \<lparr>shape0 = shape0 A, shape1 = shape1 A, cell = (\<lambda>i j. f (cell A i j))\<rparr>"

definition arr_at :: "array2 \<Rightarrow> nat \<Rightarrow> nat \<Rightarrow> error + real" where
  "arr_at A i j = (if i < shape0 A \<and> j < shape1 A then Inr (cell A i j) else Inl IndexError)"

text \<open>The dictionary \<^verbatim>\<open>photodynam.do_dynamics\<close> returns, with the keys of line 563.\<close>

record photodynam_out =
  d_t :: "real list"
  d_x :: array2
  d_y :: array2
  d_z :: array2
  d_vx :: array2
  d_vy :: array2
  d_vz :: array2
  d_kepl_a :: array2
  d_kepl_e :: array2
  d_kepl_in :: array2
  d_kepl_o :: array2
  d_kepl_ln :: array2
  d_kepl_ma :: array2

text \<open>
  \<^verbatim>\<open>photodynam.do_dynamics\<close> is a compiled extension and a parameter here, with the
  thirteen arguments of line 561 in order.
\<close>

type_synonym do_dynamics_fn =
  "real list \<Rightarrow> real list \<Rightarrow> real list \<Rightarrow> real list \<Rightarrow> real list \<Rightarrow> real list \<Rightarrow> real list
     \<Rightarrow> real list \<Rightarrow> real \<Rightarrow> real \<Rightarrow> real \<Rightarrow> bool \<Rightarrow> bool \<Rightarrow> photodynam_out"

text \<open>The twelve instantaneous series of line 616; \<open>inst_ds\<close> and \<open>inst_Fs\<close> hold
  \<^verbatim>\<open>None\<close>.\<close>

record bs_euler =
  inst_ds :: "real option list list"
  inst_Fs :: "real option list list"
  inst_ethetas :: "real list list"
  inst_elongans :: "real list list"
  inst_eincls :: "real list list"
  inst_periods :: "real list list"
  inst_smas :: "real list list"
  inst_eccs :: "real list list"
  inst_per0s :: "real list list"
  inst_long_ans :: "real list list"
  inst_incls :: "real list list"
  inst_t0_perpasses :: "real list list"

record bs_out =
  bs_ts :: "real list"
  bs_xs :: array2
  bs_ys :: array2
  bs_zs :: array2
  bs_vxs :: array2
  bs_vys :: array2
  bs_vzs :: array2
  bs_eulers :: "bs_euler option"

text \<open>
  \<^verbatim>\<open>[np.array([f(oi, ti) for ti in range(ntimes)]) for oi in range(nobjects)]\<close>
\<close>

definition per_object ::
  "nat \<Rightarrow> nat \<Rightarrow> (nat \<Rightarrow> nat \<Rightarrow> error + 'a) \<Rightarrow> error + 'a list list" where
  "per_object nobjects ntimes f =
     map_err (\<lambda>oi. map_err (\<lambda>ti. f oi ti) [0..<ntimes]) [0..<nobjects]"

text \<open>\<^verbatim>\<open>oi if oi==0 else oi-1\<close>\<close>

definition orbit_of :: "nat \<Rightarrow> nat" where
  "orbit_of oi = (if oi = 0 then oi else oi - 1)"

text \<open>Lines 581-584, with their defaults \<open>G = 1\<close> and \<open>t0 = 0.0\<close>, which line 598 and
  line 600 leave in place.\<close>

definition compute_period :: "real \<Rightarrow> real \<Rightarrow> real \<Rightarrow> real" where
  "compute_period au_to_solrad sma mass_tot =
     sqrt ((4 * pi ^ 2 * (sma / au_to_solrad) ^ 3) / (mass_tot * 1))"

definition compute_t0_perpass :: "real \<Rightarrow> real \<Rightarrow> real" where
  "compute_t0_perpass mean_anom period = 0 - (mean_anom * period) / (2 * pi)"

text \<open>Lines 580-616: the Euler part.\<close>

definition bs_roche_euler ::
  "real \<Rightarrow> photodynam_out \<Rightarrow> nat \<Rightarrow> nat \<Rightarrow> real list \<Rightarrow> real list \<Rightarrow> real list
     \<Rightarrow> error + bs_euler" where
  "bs_roche_euler au_to_solrad d nobjects ntimes masses incls long_ans =
     (case per_object nobjects ntimes (\<lambda>oi ti. arr_at (d_kepl_a d) ti (orbit_of oi)) of
        Inl err \<Rightarrow> Inl err | Inr smas0 \<Rightarrow>
     (case per_object nobjects ntimes (\<lambda>oi ti. arr_at (d_kepl_e d) ti (orbit_of oi)) of
        Inl err \<Rightarrow> Inl err | Inr eccs1 \<Rightarrow>
     (case per_object nobjects ntimes (\<lambda>oi ti. arr_at (d_kepl_in d) ti (orbit_of oi)) of
        Inl err \<Rightarrow> Inl err | Inr incls1 \<Rightarrow>
     (case per_object nobjects ntimes (\<lambda>oi ti. arr_at (d_kepl_o d) ti (orbit_of oi)) of
        Inl err \<Rightarrow> Inl err | Inr per0s1 \<Rightarrow>
     (case per_object nobjects ntimes (\<lambda>oi ti. arr_at (d_kepl_ln d) ti (orbit_of oi)) of
        Inl err \<Rightarrow> Inl err | Inr long_ans1 \<Rightarrow>
     (case per_object nobjects ntimes (\<lambda>oi ti. arr_at (d_kepl_ma d) ti (orbit_of oi)) of
        Inl err \<Rightarrow> Inl err | Inr mean_anoms1 \<Rightarrow>
     (let smas1 = map (map (\<lambda>v. v * au_to_solrad)) smas0;
          mass_tots = map (\<lambda>oi. sum_list (take (if oi = 0 then 2 else oi + 1) masses))
                        [0..<nobjects];
          periods1 = map (\<lambda>(smas, mass_tot). map (\<lambda>sma. compute_period au_to_solrad sma mass_tot) smas)
                       (zip smas1 mass_tots);
          t0_perpasses1 = map (\<lambda>(mean_anoms, periods).
                                 map (\<lambda>(ma, per). compute_t0_perpass ma per) (zip mean_anoms periods))
                            (zip mean_anoms1 periods1);
          ds1 = replicate nobjects (replicate ntimes None);
          Fs1 = replicate nobjects (replicate ntimes None)
      in
     (case per_object nobjects ntimes
             (\<lambda>oi ti. case arr_at (d_kepl_o d) ti (orbit_of oi) of
                         Inl err \<Rightarrow> Inl err
                       | Inr o1 \<Rightarrow> (case arr_at (d_kepl_ma d) ti (orbit_of oi) of
                                      Inl err \<Rightarrow> Inl err
                                    | Inr ma \<Rightarrow> Inr (o1 + ma + pi / 2))) of
        Inl err \<Rightarrow> Inl err | Inr ethetas1 \<Rightarrow>
     (case per_object nobjects ntimes
             (\<lambda>oi ti. case arr_at (d_kepl_ln d) ti (orbit_of oi) of
                         Inl err \<Rightarrow> Inl err
                       | Inr kln \<Rightarrow> (case at_index long_ans (orbit_of oi) of
                                      Inl err \<Rightarrow> Inl err
                                    | Inr la \<Rightarrow> Inr (kln + la))) of
        Inl err \<Rightarrow> Inl err | Inr elongans1 \<Rightarrow>
     (case per_object nobjects ntimes
             (\<lambda>oi ti. case arr_at (d_kepl_in d) ti (orbit_of oi) of
                         Inl err \<Rightarrow> Inl err
                       | Inr inc \<Rightarrow> (case at_index incls (orbit_of oi) of
                                       Inl err \<Rightarrow> Inl err
                                     | Inr i0 \<Rightarrow> Inr (inc + pi - i0))) of
        Inl err \<Rightarrow> Inl err | Inr eincls1 \<Rightarrow>
          Inr \<lparr>inst_ds = ds1, inst_Fs = Fs1, inst_ethetas = ethetas1,
               inst_elongans = elongans1, inst_eincls = eincls1, inst_periods = periods1,
               inst_smas = smas1, inst_eccs = eccs1, inst_per0s = per0s1,
               inst_long_ans = long_ans1, inst_incls = incls1,
               inst_t0_perpasses = t0_perpasses1\<rparr>))))))))))"

text \<open>
  The whole function. \<open>time_seq\<close> is the source's \<^verbatim>\<open>times\<close>; \<open>vgamma\<close> is accepted
  and not used (line 559).
\<close>

definition dynamics_bs ::
  "do_dynamics_fn \<Rightarrow> real \<Rightarrow> real list \<Rightarrow> real list \<Rightarrow> real list \<Rightarrow> real list \<Rightarrow> real list
     \<Rightarrow> real list \<Rightarrow> real list \<Rightarrow> real list \<Rightarrow> real \<Rightarrow> real \<Rightarrow> real \<Rightarrow> real \<Rightarrow> bool \<Rightarrow> bool
     \<Rightarrow> error + bs_out" where
  "dynamics_bs do_dynamics au_to_solrad time_seq masses smas eccs incls per0s long_ans
       mean_anoms t0 vgamma stepsize orbiterror ltte return_roche_euler =
     (let d = do_dynamics time_seq masses smas eccs incls per0s long_ans mean_anoms t0
                stepsize orbiterror ltte return_roche_euler;
          nobjects = length masses;
          norbits = length smas;
          ntimes = length time_seq;
          ts = d_t d;
          xs = arr_map (\<lambda>c. - 1 * c * au_to_solrad) (arr_T (d_x d));
          ys = arr_map (\<lambda>c. - 1 * c * au_to_solrad) (arr_T (d_y d));
          zs = arr_map (\<lambda>c. c * au_to_solrad) (arr_T (d_z d));
          vxs = arr_map (\<lambda>c. - 1 * c * au_to_solrad) (arr_T (d_vx d));
          vys = arr_map (\<lambda>c. - 1 * c * au_to_solrad) (arr_T (d_vy d));
          vzs = arr_map (\<lambda>c. c * au_to_solrad) (arr_T (d_vz d))
      in if return_roche_euler
         then (case bs_roche_euler au_to_solrad d nobjects ntimes masses incls long_ans of
                 Inl err \<Rightarrow> Inl err
               | Inr eu \<Rightarrow>
                   Inr \<lparr>bs_ts = ts, bs_xs = xs, bs_ys = ys, bs_zs = zs, bs_vxs = vxs,
                        bs_vys = vys, bs_vzs = vzs, bs_eulers = Some eu\<rparr>)
         else Inr \<lparr>bs_ts = ts, bs_xs = xs, bs_ys = ys, bs_zs = zs, bs_vxs = vxs,
                   bs_vys = vys, bs_vzs = vzs, bs_eulers = None\<rparr>)"

subsection \<open>dynamics_from_bundle_bs (lines 440-493) and dynamics_from_bundle (160-161)\<close>

text \<open>
  A keyword argument's value, and the keyword arguments of a call.
\<close>

datatype pvalue = PReal real | PBool bool | PString string

type_synonym kwargs = "string \<rightharpoonup> pvalue"

text \<open>
  The bundle is an object of the front end. The model holds the values the function
  reads from it: the stars and orbits of the hierarchy in order, the value of each
  parameter per component in the unit the call names, and the system's \<open>vgamma\<close> and
  \<open>t0\<close>. \<open>b_ltte compute kw\<close> is
  \<^verbatim>\<open>b.get_compute(compute, ...).get_value('ltte', check_visible=False, **kw)\<close>, the
  one call that receives the keyword arguments.
\<close>

record phoebe_bundle =
  b_starrefs :: "string list"
  b_orbitrefs :: "string list"
  b_mass :: "string \<Rightarrow> real"
  b_sma :: "string \<Rightarrow> real"
  b_ecc :: "string \<Rightarrow> real"
  b_incl :: "string \<Rightarrow> real"
  b_per0 :: "string \<Rightarrow> real"
  b_long_an :: "string \<Rightarrow> real"
  b_t0_perpass :: "string \<Rightarrow> real"
  b_period :: "string \<Rightarrow> real"
  b_mean_anom :: "string \<Rightarrow> real"
  b_vgamma :: real
  b_t0 :: real
  b_ltte :: "string option \<Rightarrow> kwargs \<Rightarrow> bool"

text \<open>\<open>G_AU\<close> is the constant \<^verbatim>\<open>c.G.to('AU3 / (Msun d2)').value\<close> of line 477.\<close>

definition dynamics_from_bundle_bs ::
  "do_dynamics_fn \<Rightarrow> real \<Rightarrow> real \<Rightarrow> phoebe_bundle \<Rightarrow> real list \<Rightarrow> string option \<Rightarrow> bool \<Rightarrow> kwargs
     \<Rightarrow> error + bs_out" where
  "dynamics_from_bundle_bs do_dynamics au_to_solrad G_AU b time_seq compute
       return_roche_euler kw =
     (let stepsize = 1 / 100;
          orbiterror = 1 / 10 ^ 16;
          ltte = b_ltte b compute kw;
          starrefs = b_starrefs b;
          orbitrefs = b_orbitrefs b;
          masses = map (\<lambda>component. b_mass b component * G_AU) starrefs;
          smas = map (b_sma b) orbitrefs;
          eccs = map (b_ecc b) orbitrefs;
          incls = map (b_incl b) orbitrefs;
          per0s = map (b_per0 b) orbitrefs;
          long_ans = map (b_long_an b) orbitrefs;
          t0_perpasses = map (b_t0_perpass b) orbitrefs;
          periods = map (b_period b) orbitrefs;
          vgamma = b_vgamma b;
          t0 = b_t0 b;
          mean_anoms = map (b_mean_anom b) orbitrefs
      in dynamics_bs do_dynamics au_to_solrad time_seq masses smas eccs incls per0s
           long_ans mean_anoms t0 vgamma stepsize orbiterror ltte return_roche_euler)"

definition dynamics_from_bundle ::
  "do_dynamics_fn \<Rightarrow> real \<Rightarrow> real \<Rightarrow> phoebe_bundle \<Rightarrow> real list \<Rightarrow> string option \<Rightarrow> bool \<Rightarrow> kwargs
     \<Rightarrow> error + bs_out" where
  "dynamics_from_bundle do_dynamics au_to_solrad G_AU b time_seq compute
       return_roche_euler kw =
     dynamics_from_bundle_bs do_dynamics au_to_solrad G_AU b time_seq compute
       return_roche_euler kw"

subsection \<open>Concrete inputs\<close>

text \<open>
  Two stars for the rebound driver, with the instances above for the libraries: star 0
  rests at \<open>z = 173\<close>, one day of light travel from the plane of the sky at the speed
  of light of 173 AU/d, star 1 starts at the origin and moves along \<open>x\<close> with speed 1;
  the rebound backend is available and its relativity extension is not. The flag is the
  compute option \<open>ltte\<close>.
\<close>

definition two_body_env :: "bool \<Rightarrow> env" where
  "two_body_env ltte =
     \<lparr>e_integrate = free_integrate, e_newton = secant_newton,
      e_calculate_orbit = offset_orbit,
      e_can_rebound = True, e_can_reboundx = False, e_c_AU_d = 173,
      e_stepsize = 1 / 100, e_ltte = ltte, e_gr = False, e_integrator = ''ias15'',
      e_t0 = 0,
      e_particles0 =
        [\<lparr>p_m = 1, p_x = 0, p_y = 0, p_z = 173, p_vx = 0, p_vy = 0, p_vz = 0\<rparr>,
         \<lparr>p_m = 1, p_x = 0, p_y = 0, p_z = 0, p_vx = 1, p_vy = 0, p_vz = 0\<rparr>],
      e_rotperiods = [1, 1], e_sibling_Ns = [[1], [0]]\<rparr>"

text \<open>The simulation of that system after the integration to time 1.\<close>

definition two_body_sim1 :: sim where
  "two_body_sim1 =
     \<lparr>sim_t = 1, sim_dt = 1 / 100, sim_integrator = ''ias15'', sim_gr = False,
      sim_particles =
        [\<lparr>p_m = 1, p_x = 0, p_y = 0, p_z = 173, p_vx = 0, p_vy = 0, p_vz = 0\<rparr>,
         \<lparr>p_m = 1, p_x = 1, p_y = 0, p_z = 0, p_vx = 1, p_vy = 0, p_vz = 0\<rparr>]\<rparr>"

text \<open>
  A backend for \<open>dynamics_bs\<close> whose output depends on the step size and the orbit
  error it is given: one time, two objects, the cell of object \<open>j\<close> being \<open>k + j\<close>.
\<close>

definition probe_array :: "real \<Rightarrow> array2" where
  "probe_array k = \<lparr>shape0 = 1, shape1 = 2, cell = (\<lambda>i j. k + real j)\<rparr>"

definition probe_dynamics :: do_dynamics_fn where
  "probe_dynamics time_seq masses smas eccs incls per0s long_ans mean_anoms t0 stepsize
       orbiterror ltte return_roche_euler =
     \<lparr>d_t = map (\<lambda>t. t + stepsize + orbiterror) time_seq,
      d_x = probe_array 1, d_y = probe_array 2, d_z = probe_array 3,
      d_vx = probe_array 4, d_vy = probe_array 5, d_vz = probe_array 6,
      d_kepl_a = probe_array 0, d_kepl_e = probe_array 0, d_kepl_in = probe_array 0,
      d_kepl_o = probe_array 0, d_kepl_ln = probe_array 0, d_kepl_ma = probe_array 0\<rparr>"

text \<open>A binary, whose \<open>ltte\<close> option can be overridden by the keyword \<open>ltte\<close>.\<close>

definition example_bundle :: phoebe_bundle where
  "example_bundle =
     \<lparr>b_starrefs = [''primary'', ''secondary''], b_orbitrefs = [''binary''],
      b_mass = (\<lambda>component. 1), b_sma = (\<lambda>component. 1), b_ecc = (\<lambda>component. 0),
      b_incl = (\<lambda>component. 0), b_per0 = (\<lambda>component. 0), b_long_an = (\<lambda>component. 0),
      b_t0_perpass = (\<lambda>component. 0), b_period = (\<lambda>component. 1),
      b_mean_anom = (\<lambda>component. 0), b_vgamma = 0, b_t0 = 0,
      b_ltte = (\<lambda>compute kw. kw ''ltte'' = Some (PBool True))\<rparr>"

section \<open>Properties of keplerian_from_cartesian\<close>

subsection \<open>Evaluating norms\<close>

lemma norm_axis0: "linalg_norm (a, 0, 0) = \<bar>a\<bar>"
  by (simp add: linalg_norm_def)

lemma norm_axis1: "linalg_norm (0, a, 0) = \<bar>a\<bar>"
  by (simp add: linalg_norm_def)

lemma norm_axis2: "linalg_norm (0, 0, a) = \<bar>a\<bar>"
  by (simp add: linalg_norm_def)

lemma norm_sq: "(linalg_norm a) ^ 2 = dot a a"
  by (cases a) (simp add: linalg_norm_def)

text \<open>What lines 150-151 compute, for every input the function accepts.\<close>

lemma kfc_mean_anom_code:
  assumes "keplerian_from_cartesian positions velocities mass_tot t0 G = Inr el"
  shows "k_mean_anom el = k_true_anom el - k_e el * sin (k_true_anom el) \<and>
         k_t0_perpass el = t0 - (k_mean_anom el * k_period el) / (2 * pi)"
  using assms by (auto simp add: keplerian_from_cartesian_def Let_def split: if_splits)

subsection \<open>Unbound orbits are refused\<close>

text \<open>
  C4. Whenever the derived eccentricity (the norm of the eccentricity vector of line
  88) is at least 1, \<^verbatim>\<open>keplerian_from_cartesian\<close> raises its
  \<^verbatim>\<open>NotImplementedError\<close> (the specification's InvalidOrbitError) and returns no
  elements.
\<close>

theorem keplerian_from_cartesian_rejects_unbound:
  assumes "kfc_defined positions velocities (mass_tot * G)"
    and "1 \<le> kfc_e positions velocities (mass_tot * G)"
  shows "keplerian_from_cartesian positions velocities mass_tot t0 G = Inl NotImplementedError"
  using assms by (simp add: keplerian_from_cartesian_def Let_def)

lemma unbound_example_e: "kfc_e (1, 0, 0) (0, 2, 0) 1 = 3"
  by (simp add: kfc_e_def kfc_e_v_def Let_def norm_axis0 norm_axis1)

lemma unbound_example_defined: "kfc_defined (1, 0, 0) (0, 2, 0) 1"
  by (simp add: kfc_defined_def kfc_h_v_def norm_axis0 norm_axis2)

theorem keplerian_from_cartesian_rejects_unbound_witness:
  "kfc_defined (1, 0, 0) (0, 2, 0) (1 * 1) \<and> 1 \<le> kfc_e (1, 0, 0) (0, 2, 0) (1 * 1) \<and>
   keplerian_from_cartesian (1, 0, 0) (0, 2, 0) 1 0 1 = Inl NotImplementedError"
  using keplerian_from_cartesian_rejects_unbound [of "(1, 0, 0)" "(0, 2, 0)" 1 1 0]
    unbound_example_e unbound_example_defined
  by simp

subsection \<open>The mean anomaly\<close>

lemma half_ecc_e_v: "kfc_e_v (1, 0, 0) (1 / 2, 1, 0) 1 = (0, - 1 / 2, 0)"
  by (simp add: kfc_e_v_def Let_def norm_axis0 norm_sq)

lemma half_ecc_e: "kfc_e (1, 0, 0) (1 / 2, 1, 0) 1 = 1 / 2"
  by (simp add: kfc_e_def half_ecc_e_v norm_axis1)

lemma half_ecc_incl: "kfc_incl (1, 0, 0) (1 / 2, 1, 0) = 0"
  by (simp add: kfc_incl_def kfc_h_v_def Let_def norm_axis2)

lemma half_ecc_true_anom: "kfc_true_anom (1, 0, 0) (1 / 2, 1, 0) 1 = pi / 2"
  by (simp add: kfc_true_anom_def Let_def half_ecc_e_v half_ecc_incl norm_axis0 norm_axis1)

lemma half_ecc_long_an: "kfc_long_an (1, 0, 0) (1 / 2, 1, 0) = 0"
  by (simp add: kfc_long_an_def Let_def half_ecc_incl)

lemma half_ecc_per0: "kfc_per0 (1, 0, 0) (1 / 2, 1, 0) 1 = pi / 2"
  by (simp add: kfc_per0_def kfc_per0_first_def Let_def half_ecc_e_v half_ecc_incl norm_axis1)

lemma half_ecc_spec_mean_anom: "spec_mean_anom (1 / 2) (pi / 2) = pi / 3 - sqrt 3 / 4"
  by (simp add: spec_mean_anom_def spec_eccentric_anom_def Let_def sin_60)

lemma half_ecc_mean_anoms_differ: "pi / 2 - 1 / 2 \<noteq> pi / 3 - sqrt 3 / 4"
proof -
  have "1 < sqrt 3" by simp
  moreover have "2 \<le> pi" by (rule pi_ge_two)
  ultimately have "pi / 3 - sqrt 3 / 4 < pi / 2 - 1 / 2" by linarith
  then show ?thesis by linarith
qed

text \<open>
  C1. The claim is that the returned mean anomaly is \<open>E - e sin E\<close> for the eccentric
  anomaly \<open>E\<close> of the returned true anomaly. Line 150 puts the true anomaly itself into
  that formula. At position (1, 0, 0), velocity (1/2, 1, 0), \<open>mass_tot = 1\<close>, \<open>t0 = 0\<close>,
  \<open>G = 1\<close> the orbit has eccentricity 1/2 and true anomaly \<open>\<pi>/2\<close>; the function returns
  the mean anomaly \<open>\<pi>/2 - 1/2\<close>, where the eccentric anomaly is \<open>\<pi>/3\<close> and the relation
  gives \<open>\<pi>/3 - \<surd>3/4\<close>. The epoch of periastron passage is \<open>t0 - M P / (2\<pi>)\<close> for the
  mean anomaly \<open>M\<close> the function returned.
\<close>

theorem keplerian_from_cartesian_mean_anom_at_half_ecc:
  "keplerian_from_cartesian (1, 0, 0) (1 / 2, 1, 0) 1 0 1 =
     Inr \<lparr>k_a = 4 / 3, k_e = 1 / 2, k_period = sqrt (4 * pi ^ 2 * (4 / 3) ^ 3), k_incl = 0,
          k_per0 = pi / 2, k_long_an = 0, k_true_anom = pi / 2,
          k_mean_anom = pi / 2 - 1 / 2,
          k_t0_perpass = 0 - ((pi / 2 - 1 / 2) * sqrt (4 * pi ^ 2 * (4 / 3) ^ 3)) / (2 * pi)\<rparr>
   \<and> spec_mean_anom (1 / 2) (pi / 2) = pi / 3 - sqrt 3 / 4
   \<and> pi / 2 - 1 / 2 \<noteq> pi / 3 - sqrt 3 / 4"
proof -
  have "keplerian_from_cartesian (1, 0, 0) (1 / 2, 1, 0) 1 0 1 =
     Inr \<lparr>k_a = 4 / 3, k_e = 1 / 2, k_period = sqrt (4 * pi ^ 2 * (4 / 3) ^ 3), k_incl = 0,
          k_per0 = pi / 2, k_long_an = 0, k_true_anom = pi / 2,
          k_mean_anom = pi / 2 - 1 / 2,
          k_t0_perpass = 0 - ((pi / 2 - 1 / 2) * sqrt (4 * pi ^ 2 * (4 / 3) ^ 3)) / (2 * pi)\<rparr>"
    by (simp add: keplerian_from_cartesian_def Let_def half_ecc_e half_ecc_incl
        half_ecc_true_anom half_ecc_long_an half_ecc_per0 norm_axis0 norm_sq)
  then show ?thesis
    using half_ecc_spec_mean_anom half_ecc_mean_anoms_differ by simp
qed

subsection \<open>The planar, nearly circular branch\<close>

lemma planar_e_v: "kfc_e_v (1, 0, 0) (0, 1, 0) (10000001 / 10000000) = (- 1 / 10000001, 0, 0)"
  by (simp add: kfc_e_v_def Let_def norm_axis0 norm_axis1)

lemma planar_e: "kfc_e (1, 0, 0) (0, 1, 0) (10000001 / 10000000) = 1 / 10000001"
  by (simp add: kfc_e_def planar_e_v norm_axis0)

lemma planar_incl: "kfc_incl (1, 0, 0) (0, 1, 0) = 0"
  by (simp add: kfc_incl_def kfc_h_v_def Let_def norm_axis2)

lemma planar_per0: "kfc_per0 (1, 0, 0) (0, 1, 0) (10000001 / 10000000) = pi"
  using planar_e
  by (simp add: kfc_per0_def kfc_per0_first_def Let_def planar_e_v planar_incl kfc_e_def
      norm_axis0)

text \<open>
  C3, as stated, fails: position (1, 0, 0), velocity (0, 1, 0), \<open>mass_tot = 1\<close> and
  \<open>G = 1.0000001\<close> give inclination 0 and eccentricity \<open>1/10000001 < 1e-6\<close>, and the
  returned argument of periastron is \<open>\<pi>\<close>, not 0.
\<close>

theorem planar_near_circular_per0_counterexample:
  "\<bar>kfc_incl (1, 0, 0) (0, 1, 0)\<bar> < 1 / 10 ^ 12 \<and>
   kfc_e (1, 0, 0) (0, 1, 0) (1 * (10000001 / 10000000)) < 1 / 10 ^ 6 \<and>
   map_sum id k_per0
     (keplerian_from_cartesian (1, 0, 0) (0, 1, 0) 1 0 (10000001 / 10000000)) = Inr pi \<and>
   pi \<noteq> 0"
  by (simp add: keplerian_from_cartesian_def Let_def planar_e planar_incl planar_per0)

text \<open>
  C3, amended. For every input with \<open>|inclination| < 1e-12\<close> and derived eccentricity
  below \<open>1e-6\<close>, the function returns elements whose longitude of ascending node is
  exactly 0 and whose true anomaly is \<open>arccos (r_x / |r|)\<close>, replaced by \<open>2\<pi>\<close> minus that
  when the x-component of the velocity is positive. The returned argument of periastron
  is 0 when the derived eccentricity is exactly 0 (line 102), and \<open>arccos (e_x / e)\<close>
  otherwise (line 108).
\<close>

theorem planar_near_circular_elements:
  assumes "kfc_defined r_v v_v (mass_tot * G)"
    and "\<bar>kfc_incl r_v v_v\<bar> < 1 / 10 ^ 12"
    and "kfc_e r_v v_v (mass_tot * G) < 1 / 10 ^ 6"
  shows "\<exists>el. keplerian_from_cartesian r_v v_v mass_tot t0 G = Inr el \<and>
           k_long_an el = 0 \<and>
           k_per0 el =
             (if kfc_e r_v v_v (mass_tot * G) = 0 then 0
              else arccos (vx0 (kfc_e_v r_v v_v (mass_tot * G)) / kfc_e r_v v_v (mass_tot * G))) \<and>
           k_true_anom el =
             (if vx0 v_v > 0 then 2 * pi - arccos (vx0 r_v / linalg_norm r_v)
              else arccos (vx0 r_v / linalg_norm r_v))"
proof -
  have lt1: "\<not> 1 \<le> kfc_e r_v v_v (mass_tot * G)"
    using assms(3) by simp
  show ?thesis
    using assms(2,3) lt1
    by (simp add: keplerian_from_cartesian_def Let_def kfc_long_an_def kfc_per0_def
        kfc_per0_first_def kfc_true_anom_def kfc_e_def)
qed

lemma circular_defined: "kfc_defined (1, 0, 0) (0, 1, 0) 1"
  by (simp add: kfc_defined_def kfc_h_v_def norm_axis0 norm_axis2)

lemma circular_e_v: "kfc_e_v (1, 0, 0) (0, 1, 0) 1 = (0, 0, 0)"
  by (simp add: kfc_e_v_def Let_def norm_axis0 norm_axis1)

lemma circular_e: "kfc_e (1, 0, 0) (0, 1, 0) 1 = 0"
  by (simp add: kfc_e_def circular_e_v linalg_norm_def)

lemma planar_defined: "kfc_defined (1, 0, 0) (0, 1, 0) (10000001 / 10000000)"
  by (simp add: kfc_defined_def kfc_h_v_def norm_axis0 norm_axis2)

theorem planar_near_circular_elements_witness:
  "kfc_defined (1, 0, 0) (0, 1, 0) (1 * 1) \<and> \<bar>kfc_incl (1, 0, 0) (0, 1, 0)\<bar> < 1 / 10 ^ 12 \<and>
   kfc_e (1, 0, 0) (0, 1, 0) (1 * 1) < 1 / 10 ^ 6 \<and>
   map_sum id (\<lambda>el. (k_long_an el, k_per0 el, k_true_anom el))
     (keplerian_from_cartesian (1, 0, 0) (0, 1, 0) 1 0 1) = Inr (0, 0, 0) \<and>
   kfc_defined (1, 0, 0) (0, 1, 0) (1 * (10000001 / 10000000)) \<and>
   kfc_e (1, 0, 0) (0, 1, 0) (1 * (10000001 / 10000000)) < 1 / 10 ^ 6 \<and>
   map_sum id (\<lambda>el. (k_long_an el, k_per0 el, k_true_anom el))
     (keplerian_from_cartesian (1, 0, 0) (0, 1, 0) 1 0 (10000001 / 10000000)) = Inr (0, pi, 0)"
proof -
  have "map_sum id (\<lambda>el. (k_long_an el, k_per0 el, k_true_anom el))
     (keplerian_from_cartesian (1, 0, 0) (0, 1, 0) 1 0 1) = Inr (0, 0, 0)"
    using planar_near_circular_elements [of "(1, 0, 0)" "(0, 1, 0)" 1 1 0]
      circular_defined circular_e planar_incl
    by (auto simp add: norm_axis0)
  moreover have "map_sum id (\<lambda>el. (k_long_an el, k_per0 el, k_true_anom el))
     (keplerian_from_cartesian (1, 0, 0) (0, 1, 0) 1 0 (10000001 / 10000000)) = Inr (0, pi, 0)"
    using planar_near_circular_elements [of "(1, 0, 0)" "(0, 1, 0)" 1 "10000001 / 10000000" 0]
      planar_defined planar_e planar_e_v planar_incl
    by (auto simp add: norm_axis0)
  ultimately show ?thesis
    using circular_defined circular_e planar_defined planar_e planar_incl by simp
qed

subsection \<open>The inclined branch\<close>

lemma polar_e_v: "kfc_e_v (1, 0, 0) (1 / 10000000, 0, 1) 1 = (0, 0, - 1 / 10000000)"
  by (simp add: kfc_e_v_def Let_def norm_axis0 norm_sq)

lemma polar_e: "kfc_e (1, 0, 0) (1 / 10000000, 0, 1) 1 = 1 / 10000000"
  by (simp add: kfc_e_def polar_e_v norm_axis2)

lemma polar_h_v: "kfc_h_v (1, 0, 0) (1 / 10000000, 0, 1) = (0, - 1, 0)"
  by (simp add: kfc_h_v_def)

lemma polar_n_v: "kfc_n_v (1, 0, 0) (1 / 10000000, 0, 1) = (1, 0, 0)"
  by (simp add: kfc_n_v_def polar_h_v)

lemma polar_incl: "kfc_incl (1, 0, 0) (1 / 10000000, 0, 1) = pi / 2"
  by (simp add: kfc_incl_def polar_h_v Let_def norm_axis1)

lemma polar_per0: "kfc_per0 (1, 0, 0) (1 / 10000000, 0, 1) 1 = pi / 2"
  using pi_ge_two
  by (simp add: kfc_per0_def kfc_per0_first_def Let_def polar_e_v polar_n_v polar_incl
      norm_axis2 norm_axis0)

text \<open>
  C8, as stated, fails: position (1, 0, 0), velocity (1e-7, 0, 1), \<open>mass_tot = G = 1\<close>
  give inclination \<open>\<pi>/2\<close>, eccentricity \<open>1e-7\<close> and an eccentricity vector with negative
  z-component; the quadrant-corrected value would be \<open>2\<pi> - \<pi>/2\<close>, and the function
  returns \<open>\<pi>/2\<close>.
\<close>

theorem inclined_near_circular_per0_counterexample:
  "1 / 10 ^ 12 \<le> \<bar>kfc_incl (1, 0, 0) (1 / 10000000, 0, 1)\<bar> \<and>
   vx2 (kfc_e_v (1, 0, 0) (1 / 10000000, 0, 1) (1 * 1)) < 0 \<and>
   map_sum id k_per0 (keplerian_from_cartesian (1, 0, 0) (1 / 10000000, 0, 1) 1 0 1)
     = Inr (pi / 2) \<and>
   2 * pi - arccos (dot (kfc_n_v (1, 0, 0) (1 / 10000000, 0, 1))
                        (kfc_e_v (1, 0, 0) (1 / 10000000, 0, 1) (1 * 1))
                    / (linalg_norm (kfc_n_v (1, 0, 0) (1 / 10000000, 0, 1))
                       * kfc_e (1, 0, 0) (1 / 10000000, 0, 1) (1 * 1)))
     = 3 * pi / 2 \<and>
   pi / 2 \<noteq> 3 * pi / 2"
  using pi_ge_two
  by (simp add: keplerian_from_cartesian_def Let_def polar_e polar_incl polar_per0
      polar_e_v polar_n_v norm_axis0)

text \<open>
  C8, amended. For every input of the inclined branch (\<open>|inclination| \<ge> 1e-12\<close>) that the
  function accepts: the longitude of ascending node is \<open>arccos (n_x / |n|)\<close>, replaced by
  \<open>2\<pi>\<close> minus that when \<open>n_y < 0\<close>, plus \<open>\<pi>\<close>. When the eccentricity is at least \<open>1e-6\<close>,
  the argument of periastron is \<open>arccos (n\<cdot>e_vec / (|n| e))\<close>, replaced by \<open>2\<pi>\<close> minus that
  when the z-component of \<open>e_vec\<close> is negative, and the true anomaly is
  \<open>arccos (e_vec\<cdot>r / (e |r|))\<close>, replaced by \<open>2\<pi>\<close> minus that when \<open>r\<cdot>v < 0\<close>. When the
  eccentricity is below \<open>1e-6\<close>, the argument of periastron is 0 if the eccentricity is
  exactly 0 and the uncorrected \<open>arccos (n\<cdot>e_vec / (|n| e))\<close> otherwise.
\<close>

theorem inclined_elements:
  assumes "kfc_defined r_v v_v (mass_tot * G)"
    and "linalg_norm (kfc_n_v r_v v_v) \<noteq> 0"
    and "1 / 10 ^ 12 \<le> \<bar>kfc_incl r_v v_v\<bar>"
    and "kfc_e r_v v_v (mass_tot * G) < 1"
  shows "\<exists>el. keplerian_from_cartesian r_v v_v mass_tot t0 G = Inr el \<and>
     (let mu = mass_tot * G; r = linalg_norm r_v;
          n_v = kfc_n_v r_v v_v; n = linalg_norm n_v;
          e_v = kfc_e_v r_v v_v mu; e = kfc_e r_v v_v mu
      in k_long_an el =
           (if vx1 n_v < 0 then 2 * pi - arccos (vx0 n_v / n) else arccos (vx0 n_v / n)) + pi \<and>
         k_per0 el =
           (if 1 / 10 ^ 6 \<le> e
            then (if vx2 e_v < 0 then 2 * pi - arccos (dot n_v e_v / (n * e))
                  else arccos (dot n_v e_v / (n * e)))
            else (if e = 0 then 0 else arccos (dot n_v e_v / (n * e)))) \<and>
         (1 / 10 ^ 6 \<le> e \<longrightarrow>
            k_true_anom el =
              (if dot r_v v_v < 0 then 2 * pi - arccos (dot e_v r_v / (e * r))
               else arccos (dot e_v r_v / (e * r)))))"
proof -
  have ge: "\<not> \<bar>kfc_incl r_v v_v\<bar> < 1 / 10 ^ 12"
    using assms(3) by simp
  have lt1: "\<not> 1 \<le> kfc_e r_v v_v (mass_tot * G)"
    using assms(4) by simp
  show ?thesis
    using ge lt1
    by (auto simp add: keplerian_from_cartesian_def Let_def kfc_long_an_def kfc_per0_def
        kfc_per0_first_def kfc_true_anom_def kfc_e_def)
qed

lemma tilted_e_v: "kfc_e_v (1, 0, 0) (1 / 2, 0, 1) 1 = (0, 0, - 1 / 2)"
  by (simp add: kfc_e_v_def Let_def norm_axis0 norm_sq)

lemma tilted_e: "kfc_e (1, 0, 0) (1 / 2, 0, 1) 1 = 1 / 2"
  by (simp add: kfc_e_def tilted_e_v norm_axis2)

lemma tilted_h_v: "kfc_h_v (1, 0, 0) (1 / 2, 0, 1) = (0, - 1, 0)"
  by (simp add: kfc_h_v_def)

lemma tilted_n_v: "kfc_n_v (1, 0, 0) (1 / 2, 0, 1) = (1, 0, 0)"
  by (simp add: kfc_n_v_def tilted_h_v)

lemma tilted_incl: "kfc_incl (1, 0, 0) (1 / 2, 0, 1) = pi / 2"
  by (simp add: kfc_incl_def tilted_h_v Let_def norm_axis1)

lemma tilted_defined: "kfc_defined (1, 0, 0) (1 / 2, 0, 1) 1"
  by (simp add: kfc_defined_def tilted_h_v norm_axis0 norm_axis1)

lemma polar_defined: "kfc_defined (1, 0, 0) (1 / 10000000, 0, 1) 1"
  by (simp add: kfc_defined_def polar_h_v norm_axis0 norm_axis1)

theorem inclined_elements_witness:
  "kfc_defined (1, 0, 0) (1 / 2, 0, 1) (1 * 1) \<and>
   linalg_norm (kfc_n_v (1, 0, 0) (1 / 2, 0, 1)) \<noteq> 0 \<and>
   1 / 10 ^ 12 \<le> \<bar>kfc_incl (1, 0, 0) (1 / 2, 0, 1)\<bar> \<and>
   kfc_e (1, 0, 0) (1 / 2, 0, 1) (1 * 1) < 1 \<and>
   1 / 10 ^ 6 \<le> kfc_e (1, 0, 0) (1 / 2, 0, 1) (1 * 1) \<and>
   map_sum id (\<lambda>el. (k_long_an el, k_per0 el, k_true_anom el))
     (keplerian_from_cartesian (1, 0, 0) (1 / 2, 0, 1) 1 0 1) = Inr (pi, 3 * pi / 2, pi / 2) \<and>
   kfc_defined (1, 0, 0) (1 / 10000000, 0, 1) (1 * 1) \<and>
   linalg_norm (kfc_n_v (1, 0, 0) (1 / 10000000, 0, 1)) \<noteq> 0 \<and>
   1 / 10 ^ 12 \<le> \<bar>kfc_incl (1, 0, 0) (1 / 10000000, 0, 1)\<bar> \<and>
   kfc_e (1, 0, 0) (1 / 10000000, 0, 1) (1 * 1) < 1 / 10 ^ 6 \<and>
   map_sum id (\<lambda>el. (k_long_an el, k_per0 el))
     (keplerian_from_cartesian (1, 0, 0) (1 / 10000000, 0, 1) 1 0 1) = Inr (pi, pi / 2)"
proof -
  have "map_sum id (\<lambda>el. (k_long_an el, k_per0 el, k_true_anom el))
     (keplerian_from_cartesian (1, 0, 0) (1 / 2, 0, 1) 1 0 1) = Inr (pi, 3 * pi / 2, pi / 2)"
    using inclined_elements [of "(1, 0, 0)" "(1 / 2, 0, 1)" 1 1 0]
      tilted_defined tilted_e tilted_e_v tilted_n_v tilted_incl pi_ge_two
    by (auto simp add: Let_def norm_axis0)
  moreover have "map_sum id (\<lambda>el. (k_long_an el, k_per0 el))
     (keplerian_from_cartesian (1, 0, 0) (1 / 10000000, 0, 1) 1 0 1) = Inr (pi, pi / 2)"
    using inclined_elements [of "(1, 0, 0)" "(1 / 10000000, 0, 1)" 1 1 0]
      polar_defined polar_e polar_e_v polar_n_v polar_incl pi_ge_two
    by (auto simp add: Let_def norm_axis0)
  ultimately show ?thesis
    using tilted_defined tilted_e tilted_n_v tilted_incl polar_defined polar_e polar_n_v
      polar_incl pi_ge_two
    by (simp add: norm_axis0)
qed

section \<open>Properties of the photodynam driver\<close>

text \<open>
  C10. Whenever \<^verbatim>\<open>dynamics_bs\<close> returns, its \<open>xs\<close>, \<open>ys\<close>, \<open>vxs\<close> and \<open>vys\<close> are the
  transposed outputs of photodynam multiplied by \<open>-1\<close> and by the factor from AU to
  solar radii, and its \<open>zs\<close> and \<open>vzs\<close> are the transposed outputs multiplied by that
  factor only: cell \<open>[j][i]\<close> of the result is cell \<open>[i][j]\<close> of the backend, negated
  for the four in-plane series.
\<close>

theorem dynamics_bs_flips_sky_plane:
  assumes "dynamics_bs do_dynamics au_to_solrad time_seq masses smas eccs incls per0s
             long_ans mean_anoms t0 vgamma stepsize orbiterror ltte return_roche_euler
           = Inr out"
    and "d = do_dynamics time_seq masses smas eccs incls per0s long_ans mean_anoms t0
               stepsize orbiterror ltte return_roche_euler"
  shows "cell (bs_xs out) j i = - (cell (d_x d) i j * au_to_solrad) \<and>
         cell (bs_ys out) j i = - (cell (d_y d) i j * au_to_solrad) \<and>
         cell (bs_zs out) j i = cell (d_z d) i j * au_to_solrad \<and>
         cell (bs_vxs out) j i = - (cell (d_vx d) i j * au_to_solrad) \<and>
         cell (bs_vys out) j i = - (cell (d_vy d) i j * au_to_solrad) \<and>
         cell (bs_vzs out) j i = cell (d_vz d) i j * au_to_solrad \<and>
         map (\<lambda>A. (shape0 A, shape1 A))
           [bs_xs out, bs_ys out, bs_zs out, bs_vxs out, bs_vys out, bs_vzs out]
         = map (\<lambda>A. (shape1 A, shape0 A)) [d_x d, d_y d, d_z d, d_vx d, d_vy d, d_vz d]"
  using assms
  by (auto simp add: dynamics_bs_def Let_def arr_map_def arr_T_def split: if_splits sum.splits)

theorem dynamics_bs_flips_sky_plane_witness:
  "dynamics_bs probe_dynamics 215 [0] [1, 1] [1] [0] [0] [0] [0] [0] 0 0 (1 / 100)
       (1 / 10 ^ 16) False False
     = Inr \<lparr>bs_ts = [1 / 100 + 1 / 10 ^ 16],
            bs_xs = arr_map (\<lambda>c. - 1 * c * 215) (arr_T (probe_array 1)),
            bs_ys = arr_map (\<lambda>c. - 1 * c * 215) (arr_T (probe_array 2)),
            bs_zs = arr_map (\<lambda>c. c * 215) (arr_T (probe_array 3)),
            bs_vxs = arr_map (\<lambda>c. - 1 * c * 215) (arr_T (probe_array 4)),
            bs_vys = arr_map (\<lambda>c. - 1 * c * 215) (arr_T (probe_array 5)),
            bs_vzs = arr_map (\<lambda>c. c * 215) (arr_T (probe_array 6)),
            bs_eulers = None\<rparr> \<and>
   cell (arr_map (\<lambda>c. - 1 * c * 215) (arr_T (probe_array 1))) 1 0 = - 430 \<and>
   cell (arr_map (\<lambda>c. c * 215) (arr_T (probe_array 3))) 1 0 = 860"
proof -
  let ?out = "\<lparr>bs_ts = [1 / 100 + 1 / 10 ^ 16],
            bs_xs = arr_map (\<lambda>c. - 1 * c * 215) (arr_T (probe_array 1)),
            bs_ys = arr_map (\<lambda>c. - 1 * c * 215) (arr_T (probe_array 2)),
            bs_zs = arr_map (\<lambda>c. c * 215) (arr_T (probe_array 3)),
            bs_vxs = arr_map (\<lambda>c. - 1 * c * 215) (arr_T (probe_array 4)),
            bs_vys = arr_map (\<lambda>c. - 1 * c * 215) (arr_T (probe_array 5)),
            bs_vzs = arr_map (\<lambda>c. c * 215) (arr_T (probe_array 6)),
            bs_eulers = None\<rparr>"
  have run: "dynamics_bs probe_dynamics 215 [0] [1, 1] [1] [0] [0] [0] [0] [0] 0 0 (1 / 100)
       (1 / 10 ^ 16) False False = Inr ?out"
    by (simp add: dynamics_bs_def Let_def probe_dynamics_def)
  have "cell (bs_xs ?out) 1 0
          = - (cell (d_x (probe_dynamics [0] [1, 1] [1] [0] [0] [0] [0] [0] 0 (1 / 100)
                 (1 / 10 ^ 16) False False)) 0 1 * 215) \<and>
        cell (bs_zs ?out) 1 0
          = cell (d_z (probe_dynamics [0] [1, 1] [1] [0] [0] [0] [0] [0] 0 (1 / 100)
                 (1 / 10 ^ 16) False False)) 0 1 * 215"
    using dynamics_bs_flips_sky_plane [OF run refl, of 1 0] by simp
  then show ?thesis
    using run by (simp add: probe_dynamics_def probe_array_def)
qed

text \<open>
  C9. Two calls of \<^verbatim>\<open>dynamics_from_bundle_bs\<close> whose keyword arguments differ in
  \<open>stepsize\<close> and \<open>orbiterror\<close> only, so that the one call that receives the keyword
  arguments (the lookup of \<open>ltte\<close>) reads the same value, return the same result; and the
  result is the one obtained from a backend that is always handed the step size 0.01
  and the orbit error 1e-16, whatever it is asked to use.
\<close>

theorem dynamics_from_bundle_bs_fixed_stepsize_orbiterror:
  assumes "b_ltte b compute kw1 = b_ltte b compute kw2"
  shows "dynamics_from_bundle_bs do_dynamics au_to_solrad G_AU b time_seq compute
           return_roche_euler kw1
         = dynamics_from_bundle_bs do_dynamics au_to_solrad G_AU b time_seq compute
             return_roche_euler kw2 \<and>
         dynamics_from_bundle_bs do_dynamics au_to_solrad G_AU b time_seq compute
           return_roche_euler kw1
         = dynamics_from_bundle_bs
             (\<lambda>tm ms sm ec inc pe lo ma t0 stepsize orbiterror.
                do_dynamics tm ms sm ec inc pe lo ma t0 (1 / 100) (1 / 10 ^ 16))
             au_to_solrad G_AU b time_seq compute return_roche_euler kw1"
  using assms by (simp add: dynamics_from_bundle_bs_def dynamics_bs_def Let_def)

theorem dynamics_from_bundle_bs_fixed_stepsize_orbiterror_witness:
  "b_ltte example_bundle None [''stepsize'' \<mapsto> PReal (1 / 2)]
     = b_ltte example_bundle None [''orbiterror'' \<mapsto> PReal (1 / 1000)] \<and>
   dynamics_from_bundle_bs probe_dynamics 215 1 example_bundle [0] None False
       [''stepsize'' \<mapsto> PReal (1 / 2)]
     = dynamics_from_bundle_bs probe_dynamics 215 1 example_bundle [0] None False
         [''orbiterror'' \<mapsto> PReal (1 / 1000)] \<and>
   map_sum id bs_ts
     (dynamics_from_bundle_bs probe_dynamics 215 1 example_bundle [0] None False
        [''stepsize'' \<mapsto> PReal (1 / 2)])
     = Inr [1 / 100 + 1 / 10 ^ 16]"
proof -
  have same: "b_ltte example_bundle None [''stepsize'' \<mapsto> PReal (1 / 2)]
     = b_ltte example_bundle None [''orbiterror'' \<mapsto> PReal (1 / 1000)]"
    by (simp add: example_bundle_def)
  have "map_sum id bs_ts
     (dynamics_from_bundle_bs probe_dynamics 215 1 example_bundle [0] None False
        [''stepsize'' \<mapsto> PReal (1 / 2)])
     = Inr [1 / 100 + 1 / 10 ^ 16]"
    by (simp add: dynamics_from_bundle_bs_def dynamics_bs_def Let_def probe_dynamics_def)
  then show ?thesis
    using same
      dynamics_from_bundle_bs_fixed_stepsize_orbiterror
        [OF same, of probe_dynamics 215 1 "[0]" False]
    by simp
qed


section \<open>Properties of the rebound driver\<close>

subsection \<open>Evaluating the concrete runs\<close>

lemma secant_iter_numeral:
  "secant_iter (numeral k) f p0 q0 p1 q1 st =
     (if q1 = q0 then (Inr ((p1 + p0) / 2), st)
      else (let p = p1 - q1 * (p1 - p0) / (q1 - q0)
            in if \<bar>p - p1\<bar> < 148 / 10 ^ 10 then (Inr p, st)
               else (case f p st of
                       (Inl err, st1) \<Rightarrow> (Inl err, st1)
                     | (Inr q, st1) \<Rightarrow> secant_iter (pred_numeral k) f p1 q1 p q st1)))"
  by (simp add: numeral_eq_Suc)

lemmas run_defs =
  dynamics_from_bundle_rebound_def body_step_def store_euler_def store_particle_def
  calculate_euler_def com_phantom_particle_def particle_ltte_def secant_newton_def Let_def
  two_body_env_def two_body_sim1_def residual_def sim_integrate_def free_integrate_def
  at_index_def secant_iter_numeral arrays_zero_def euler_zero_def set2_def offset_orbit_def

subsection \<open>The availability checks\<close>

text \<open>
  C6. When the rebound backend is unavailable, or general relativity is requested and
  the reboundx extension is unavailable, \<^verbatim>\<open>dynamics_from_bundle_rebound\<close> raises its
  \<^verbatim>\<open>ImportError\<close> (the specification's UnsupportedConfigurationError) with no result,
  and no integration has been performed: the journal is empty.
\<close>

theorem rebound_unavailable_fails_before_integration:
  assumes "\<not> e_can_rebound P \<or> (e_gr P \<and> \<not> e_can_reboundx P)"
  shows "dynamics_from_bundle_rebound P time_seq return_roche_euler = (Inl ImportError, [])"
  using assms by (auto simp add: dynamics_from_bundle_rebound_def)

theorem rebound_unavailable_fails_before_integration_witness:
  "e_gr ((two_body_env True)\<lparr>e_gr := True\<rparr>) \<and>
   \<not> e_can_reboundx ((two_body_env True)\<lparr>e_gr := True\<rparr>) \<and>
   dynamics_from_bundle_rebound ((two_body_env True)\<lparr>e_gr := True\<rparr>) [1, 2] True
     = (Inl ImportError, []) \<and>
   \<not> e_can_rebound ((two_body_env True)\<lparr>e_can_rebound := False\<rparr>) \<and>
   dynamics_from_bundle_rebound ((two_body_env True)\<lparr>e_can_rebound := False\<rparr>) [1, 2] False
     = (Inl ImportError, [])"
proof -
  have a: "e_gr ((two_body_env True)\<lparr>e_gr := True\<rparr>)"
    and a': "\<not> e_can_reboundx ((two_body_env True)\<lparr>e_gr := True\<rparr>)"
    by (simp_all add: two_body_env_def)
  have b: "\<not> e_can_rebound ((two_body_env True)\<lparr>e_can_rebound := False\<rparr>)"
    by simp
  show ?thesis
    using a a' b
      rebound_unavailable_fails_before_integration
        [of "(two_body_env True)\<lparr>e_gr := True\<rparr>" "[1, 2]" True]
      rebound_unavailable_fails_before_integration
        [of "(two_body_env True)\<lparr>e_can_rebound := False\<rparr>" "[1, 2]" False]
    by blast
qed

subsection \<open>The order of the times\<close>

lemma set2_length: "length (set2 A j i v) = length A"
  by (simp add: set2_def)

lemma body_step_plain:
  assumes "\<not> e_ltte P" and "j < length (sim_particles (fst st))" and "j < length (a_xs out)"
  shows "\<exists>out1. body_step P False i time j (st, out) = (Inr out1, st) \<and>
           length (a_xs out1) = length (a_xs out)"
  using assms
  by (simp add: body_step_def store_euler_def store_particle_def at_index_def set2_length)

lemma body_loop_plain:
  assumes "\<not> e_ltte P"
    and "\<forall>j \<in> set js. j < length (sim_particles (fst st)) \<and> j < length (a_xs out)"
  shows "\<exists>out1. body_loop P False i time js (st, out) = (Inr out1, st) \<and>
           length (a_xs out1) = length (a_xs out)"
  using assms(2)
proof (induction js arbitrary: out)
  case Nil
  then show ?case by simp
next
  case (Cons j js)
  from Cons.prems have j: "j < length (sim_particles (fst st))" "j < length (a_xs out)"
    by simp_all
  from body_step_plain [OF assms(1) j, of i time]
  obtain out1 where s: "body_step P False i time j (st, out) = (Inr out1, st)"
    and l: "length (a_xs out1) = length (a_xs out)"
    by blast
  from Cons.prems l
  have "\<forall>k \<in> set js. k < length (sim_particles (fst st)) \<and> k < length (a_xs out1)"
    by simp
  from Cons.IH [OF this] l s show ?case
    by simp
qed

lemma time_loop_plain:
  assumes "\<not> e_ltte P"
    and "\<forall>t s. length (sim_particles (e_integrate P t s)) \<le> length (sim_particles s)"
    and "length (sim_particles (fst st)) \<le> length (a_xs out)"
  shows "\<exists>out1 s1. time_loop P False i ts (st, out) = (Inr out1, (s1, snd st @ ts))"
  using assms(3)
proof (induction ts arbitrary: i st out)
  case Nil
  then show ?case by (cases st) simp
next
  case (Cons t ts)
  let ?st1 = "sim_integrate P t st"
  have n: "length (sim_particles (fst ?st1)) \<le> length (a_xs out)"
    using assms(2) Cons.prems order_trans by (fastforce simp add: sim_integrate_def)
  then have "\<forall>j \<in> set [0..<length (sim_particles (fst ?st1))].
               j < length (sim_particles (fst ?st1)) \<and> j < length (a_xs out)"
    by simp
  from body_loop_plain [OF assms(1) this, of i t]
  obtain out1 where b: "body_loop P False i t [0..<length (sim_particles (fst ?st1))] (?st1, out)
                          = (Inr out1, ?st1)"
    and l: "length (a_xs out1) = length (a_xs out)"
    by blast
  from n l have "length (sim_particles (fst ?st1)) \<le> length (a_xs out1)"
    by simp
  from Cons.IH [OF this, of "Suc i"]
  obtain out2 s2 where "time_loop P False (Suc i) ts (?st1, out1) = (Inr out2, (s2, snd ?st1 @ ts))"
    by blast
  with b show ?case
    by (simp add: Let_def sim_integrate_def)
qed

text \<open>
  C2, as stated, fails: for the times 1, 0 (not increasing) the driver, with its backend
  available, returns its seven arrays and has integrated twice, to time 1 and then back
  to time 0.
\<close>

theorem rebound_decreasing_times_counterexample:
  "dynamics_from_bundle_rebound (two_body_env False) [1, 0] False =
     (Inr \<lparr>r_times = [1, 0], r_xs = [[0, 0], [1, 0]], r_ys = [[0, 0], [0, 0]],
           r_zs = [[173, 173], [0, 0]], r_vxs = [[0, 0], [1, 1]], r_vys = [[0, 0], [0, 0]],
           r_vzs = [[0, 0], [0, 0]], r_eulers = None\<rparr>,
      [1, 0])"
  by (simp add: run_defs)

text \<open>
  C2, amended. Neither driver checks the order of the times, and no error of this module
  is about it. With the rebound backend available (and reboundx when general relativity
  is requested), with light travel time and Euler output off and an integrator that adds
  no particle, \<^verbatim>\<open>dynamics_from_bundle_rebound\<close> returns normally for every sequence of
  times, increasing or not, and has called \<^verbatim>\<open>sim.integrate\<close> once per requested time, in
  the order given, each time with the target \<open>time - t0\<close>. \<^verbatim>\<open>dynamics_bs\<close> hands the times
  as given to photodynam and, with Euler output off, raises nothing itself.
\<close>

theorem drivers_accept_any_time_order:
  assumes "e_can_rebound P" and "e_gr P \<longrightarrow> e_can_reboundx P" and "\<not> e_ltte P"
    and "\<forall>t s. length (sim_particles (e_integrate P t s)) \<le> length (sim_particles s)"
  shows "(\<exists>out. dynamics_from_bundle_rebound P time_seq False
                 = (Inr out, map (\<lambda>t. t - e_t0 P) time_seq) \<and>
               r_times out = map (\<lambda>t. t - e_t0 P) time_seq) \<and>
         (\<exists>out. dynamics_bs do_dynamics au_to_solrad time_seq masses smas eccs incls per0s
                   long_ans mean_anoms t0 vgamma stepsize orbiterror ltte False = Inr out \<and>
                 bs_ts out = d_t (do_dynamics time_seq masses smas eccs incls per0s long_ans
                                    mean_anoms t0 stepsize orbiterror ltte False))"
proof
  let ?s0 = "\<lparr>sim_t = 0, sim_dt = e_stepsize P, sim_integrator = e_integrator P,
               sim_gr = e_gr P, sim_particles = e_particles0 P\<rparr>"
  let ?ts = "map (\<lambda>t. t - e_t0 P) time_seq"
  let ?out0 = "arrays_zero (length (e_particles0 P)) (length ?ts)"
  have "length (sim_particles (fst (?s0, []::real list))) \<le> length (a_xs ?out0)"
    by (simp add: arrays_zero_def)
  from time_loop_plain [OF assms(3) assms(4) this, of 0 ?ts]
  obtain out1 s1 where "time_loop P False 0 ?ts ((?s0, []), ?out0) = (Inr out1, (s1, ?ts))"
    by auto
  then show "\<exists>out. dynamics_from_bundle_rebound P time_seq False = (Inr out, ?ts) \<and>
               r_times out = ?ts"
    using assms(1,2) by (simp add: dynamics_from_bundle_rebound_def Let_def)
next
  show "\<exists>out. dynamics_bs do_dynamics au_to_solrad time_seq masses smas eccs incls per0s
                   long_ans mean_anoms t0 vgamma stepsize orbiterror ltte False = Inr out \<and>
                 bs_ts out = d_t (do_dynamics time_seq masses smas eccs incls per0s long_ans
                                    mean_anoms t0 stepsize orbiterror ltte False)"
    by (simp add: dynamics_bs_def Let_def)
qed

lemma free_integrate_length:
  "length (sim_particles (free_integrate t s)) \<le> length (sim_particles s)"
  by (simp add: free_integrate_def)

theorem drivers_accept_any_time_order_witness:
  "e_can_rebound (two_body_env False) \<and>
   \<not> e_gr (two_body_env False) \<and> \<not> e_ltte (two_body_env False) \<and>
   map_sum id r_times (fst (dynamics_from_bundle_rebound (two_body_env False) [1, 0] False))
     = Inr [1, 0] \<and>
   snd (dynamics_from_bundle_rebound (two_body_env False) [1, 0] False) = [1, 0] \<and>
   map_sum id bs_ts
     (dynamics_bs probe_dynamics 215 [1, 0] [1, 1] [1] [0] [0] [0] [0] [0] 0 0 (1 / 100)
        (1 / 10 ^ 16) False False)
     = Inr [1 + 1 / 100 + 1 / 10 ^ 16, 1 / 100 + 1 / 10 ^ 16]"
proof -
  have a: "e_can_rebound (two_body_env False)"
    and b: "e_gr (two_body_env False) \<longrightarrow> e_can_reboundx (two_body_env False)"
    and c: "\<not> e_ltte (two_body_env False)"
    and g: "\<not> e_gr (two_body_env False)"
    by (simp_all add: two_body_env_def)
  have d: "\<forall>t s. length (sim_particles (e_integrate (two_body_env False) t s))
                   \<le> length (sim_particles s)"
    by (simp add: two_body_env_def free_integrate_length)
  have t0: "e_t0 (two_body_env False) = 0"
    by (simp add: two_body_env_def)
  from drivers_accept_any_time_order [OF a b c d, of "[1, 0]" probe_dynamics 215 "[1, 1]" "[1]"
      "[0]" "[0]" "[0]" "[0]" "[0]" 0 0 "1 / 100" "1 / 10 ^ 16" False]
  show ?thesis
    using a c g t0 by (auto simp add: probe_dynamics_def)
qed

subsection \<open>Euler output and light travel time\<close>

text \<open>
  C5. The claim is that the Euler elements of every body are computed from the state at
  the requested time, before any light-travel-time adjustment, and that the adjustment
  never perturbs the state used later. \<^verbatim>\<open>particle_ltte\<close> advances the one shared
  simulation and does not restore it, so the Euler elements of star 1 are computed from
  the state star 0's adjustment left. For the two stars above, the requested time 1,
  light travel time and Euler output on: star 0 is observed as emitted at time 2, and
  the separation \<open>d\<close> of star 1 comes out as 2, the value at time 2, where the state at
  the requested time gives 1, as the run without light travel time does. The journal
  shows the simulation at times 1.0002 and 2 before star 1 is treated and at time 1
  again after.
\<close>

theorem rebound_euler_after_ltte_of_earlier_body:
  "dynamics_from_bundle_rebound (two_body_env True) [1] True =
     (Inr \<lparr>r_times = [1], r_xs = [[0], [1]], r_ys = [[0], [0]], r_zs = [[173], [0]],
           r_vxs = [[0], [1]], r_vys = [[0], [0]], r_vzs = [[0], [0]],
           r_eulers = Some
             [[\<lparr>eu_d = - 1, eu_F = 1, eu_etheta = pi, eu_elongan = - pi, eu_eincl = 0,
                eu_period = 1, eu_sma = 1, eu_ecc = 0, eu_per0 = 0, eu_long_an = - pi,
                eu_incl = 0, eu_t0_perpass = 0\<rparr>],
              [\<lparr>eu_d = 2, eu_F = 1, eu_etheta = pi, eu_elongan = - pi, eu_eincl = 0,
                eu_period = 1, eu_sma = 1, eu_ecc = 0, eu_per0 = 0, eu_long_an = - pi,
                eu_incl = 0, eu_t0_perpass = 0\<rparr>]]\<rparr>,
      [1, 5001 / 5000, 2, 1, 5001 / 5000, 1]) \<and>
   map_sum id eu_d (calculate_euler (two_body_env True) two_body_sim1 1) = Inr 1 \<and>
   dynamics_from_bundle_rebound (two_body_env False) [1] True =
     (Inr \<lparr>r_times = [1], r_xs = [[0], [1]], r_ys = [[0], [0]], r_zs = [[173], [0]],
           r_vxs = [[0], [1]], r_vys = [[0], [0]], r_vzs = [[0], [0]],
           r_eulers = Some
             [[\<lparr>eu_d = - 1, eu_F = 1, eu_etheta = pi, eu_elongan = - pi, eu_eincl = 0,
                eu_period = 1, eu_sma = 1, eu_ecc = 0, eu_per0 = 0, eu_long_an = - pi,
                eu_incl = 0, eu_t0_perpass = 0\<rparr>],
              [\<lparr>eu_d = 1, eu_F = 1, eu_etheta = pi, eu_elongan = - pi, eu_eincl = 0,
                eu_period = 1, eu_sma = 1, eu_ecc = 0, eu_per0 = 0, eu_long_an = - pi,
                eu_incl = 0, eu_t0_perpass = 0\<rparr>]]\<rparr>,
      [1])"
proof -
  have "dynamics_from_bundle_rebound (two_body_env True) [1] True =
     (Inr \<lparr>r_times = [1], r_xs = [[0], [1]], r_ys = [[0], [0]], r_zs = [[173], [0]],
           r_vxs = [[0], [1]], r_vys = [[0], [0]], r_vzs = [[0], [0]],
           r_eulers = Some
             [[\<lparr>eu_d = - 1, eu_F = 1, eu_etheta = pi, eu_elongan = - pi, eu_eincl = 0,
                eu_period = 1, eu_sma = 1, eu_ecc = 0, eu_per0 = 0, eu_long_an = - pi,
                eu_incl = 0, eu_t0_perpass = 0\<rparr>],
              [\<lparr>eu_d = 2, eu_F = 1, eu_etheta = pi, eu_elongan = - pi, eu_eincl = 0,
                eu_period = 1, eu_sma = 1, eu_ecc = 0, eu_per0 = 0, eu_long_an = - pi,
                eu_incl = 0, eu_t0_perpass = 0\<rparr>]]\<rparr>,
      [1, 5001 / 5000, 2, 1, 5001 / 5000, 1])"
    by (simp add: run_defs)
  moreover have "map_sum id eu_d (calculate_euler (two_body_env True) two_body_sim1 1) = Inr 1"
    by (simp add: run_defs)
  moreover have "dynamics_from_bundle_rebound (two_body_env False) [1] True =
     (Inr \<lparr>r_times = [1], r_xs = [[0], [1]], r_ys = [[0], [0]], r_zs = [[173], [0]],
           r_vxs = [[0], [1]], r_vys = [[0], [0]], r_vzs = [[0], [0]],
           r_eulers = Some
             [[\<lparr>eu_d = - 1, eu_F = 1, eu_etheta = pi, eu_elongan = - pi, eu_eincl = 0,
                eu_period = 1, eu_sma = 1, eu_ecc = 0, eu_per0 = 0, eu_long_an = - pi,
                eu_incl = 0, eu_t0_perpass = 0\<rparr>],
              [\<lparr>eu_d = 1, eu_F = 1, eu_etheta = pi, eu_elongan = - pi, eu_eincl = 0,
                eu_period = 1, eu_sma = 1, eu_ecc = 0, eu_per0 = 0, eu_long_an = - pi,
                eu_incl = 0, eu_t0_perpass = 0\<rparr>]]\<rparr>,
      [1])"
    by (simp add: run_defs)
  ultimately show ?thesis by blast
qed


subsection \<open>The emission time\<close>

text \<open>
  C7, as stated, fails in its last clause: for star 0 above, observed at time 1, the
  root finder returns the emission time 2, the simulation is left at time 2 and the
  particle returned is the one of that state, at \<open>z = 173\<close>; with the speed of light 173
  this gives \<open>t_em + z(t_em)/c = 3\<close>, not the observation time 1, and
  \<open>t_em - z(t_em)/c = 1\<close>.
\<close>

theorem particle_ltte_sign_counterexample:
  "particle_ltte (two_body_env True) 0 1 (two_body_sim1, [1]) =
     (Inr \<lparr>p_m = 1, p_x = 0, p_y = 0, p_z = 173, p_vx = 0, p_vy = 0, p_vz = 0\<rparr>,
      \<lparr>sim_t = 2, sim_dt = 1 / 100, sim_integrator = ''ias15'', sim_gr = False,
        sim_particles =
          [\<lparr>p_m = 1, p_x = 0, p_y = 0, p_z = 173, p_vx = 0, p_vy = 0, p_vz = 0\<rparr>,
           \<lparr>p_m = 1, p_x = 2, p_y = 0, p_z = 0, p_vx = 1, p_vy = 0, p_vz = 0\<rparr>]\<rparr>,
      [1, 5001 / 5000, 2]) \<and>
   e_c_AU_d (two_body_env True) = 173 \<and>
   (2::real) + 173 / 173 \<noteq> 1 \<and>
   (2::real) - 173 / 173 = 1"
  by (simp add: run_defs)

text \<open>
  C7, amended. The correction for a body at observation time \<open>t_obs\<close> hands the root
  finder the residual \<open>f(t) = t - z(t)/c - t_obs\<close> and the seed \<open>t_obs\<close>, and no
  derivative. When the root finder returns a time \<open>t_em\<close> at which the residual is zero,
  and the integrator stops exactly at the time it is asked for, the simulation is left
  at \<open>t_em\<close>, the particle returned is the body's particle in that state (not the one at
  \<open>t_obs\<close>), it is what the loop stores at the time index of \<open>t_obs\<close>, and
  \<open>t_em - z(t_em)/c = t_obs\<close>.
\<close>

theorem particle_ltte_emission_time:
  assumes "\<forall>t s. sim_t (e_integrate P t s) = t"
    and "e_newton P (residual P j t_obs) t_obs st = (Inr t_em, st1)"
    and "fst (residual P j t_obs t_em st1) = Inr 0"
  shows "\<exists>p st2. particle_ltte P j t_obs st = (Inr p, st2) \<and>
           sim_t (fst st2) = t_em \<and>
           at_index (sim_particles (fst st2)) j = Inr p \<and>
           t_em - p_z p / e_c_AU_d P = t_obs \<and>
           (e_ltte P \<longrightarrow>
              body_step P False i t_obs j (st, out) = (store_particle i j p out, st2))"
proof -
  define st2 where "st2 = (if sim_t (fst st1) \<noteq> t_em then sim_integrate P t_em st1 else st1)"
  have t: "sim_t (fst st2) = t_em"
    using assms(1) by (simp add: st2_def sim_integrate_def)
  from assms(3) obtain p where p: "at_index (sim_particles (fst st2)) j = Inr p"
    and z: "t_em - p_z p / e_c_AU_d P - t_obs = 0"
    by (auto simp add: residual_def Let_def st2_def split: sum.splits if_splits)
  have l: "particle_ltte P j t_obs st = (Inr p, st2)"
    using assms(2) p by (simp add: particle_ltte_def Let_def st2_def)
  have "e_ltte P \<longrightarrow> body_step P False i t_obs j (st, out) = (store_particle i j p out, st2)"
    using l by (simp add: body_step_def store_euler_def)
  with t p z l show ?thesis by simp
qed

lemma free_integrate_exact: "sim_t (free_integrate t s) = t"
  by (simp add: free_integrate_def)

theorem particle_ltte_emission_time_witness:
  "e_newton (two_body_env True) (residual (two_body_env True) 0 1) 1 (two_body_sim1, [1])
     = (Inr 2, free_integrate 2 two_body_sim1, [1, 5001 / 5000, 2]) \<and>
   fst (residual (two_body_env True) 0 1 2 (free_integrate 2 two_body_sim1, [1, 5001 / 5000, 2]))
     = Inr 0 \<and>
   fst (particle_ltte (two_body_env True) 0 1 (two_body_sim1, [1]))
     = Inr \<lparr>p_m = 1, p_x = 0, p_y = 0, p_z = 173, p_vx = 0, p_vy = 0, p_vz = 0\<rparr> \<and>
   sim_t (fst (snd (particle_ltte (two_body_env True) 0 1 (two_body_sim1, [1])))) = 2 \<and>
   fst (body_step (two_body_env True) False 0 1 0
          ((two_body_sim1, [1]), arrays_zero 2 1))
     = store_particle 0 0 \<lparr>p_m = 1, p_x = 0, p_y = 0, p_z = 173, p_vx = 0, p_vy = 0, p_vz = 0\<rparr>
         (arrays_zero 2 1)"
proof -
  have a: "\<forall>t s. sim_t (e_integrate (two_body_env True) t s) = t"
    by (simp add: two_body_env_def free_integrate_exact)
  have b: "e_newton (two_body_env True) (residual (two_body_env True) 0 1) 1 (two_body_sim1, [1])
     = (Inr 2, free_integrate 2 two_body_sim1, [1, 5001 / 5000, 2])"
    by (simp add: run_defs)
  have c: "fst (residual (two_body_env True) 0 1 2
                  (free_integrate 2 two_body_sim1, [1, 5001 / 5000, 2])) = Inr 0"
    by (simp add: run_defs)
  have l: "e_ltte (two_body_env True)"
    by (simp add: two_body_env_def)
  from particle_ltte_emission_time [OF a b c, of 0 "arrays_zero 2 1"]
  obtain p st2 where r: "particle_ltte (two_body_env True) 0 1 (two_body_sim1, [1]) = (Inr p, st2)"
    and t: "sim_t (fst st2) = 2"
    and z: "2 - p_z p / e_c_AU_d (two_body_env True) = 1"
    and s: "body_step (two_body_env True) False 0 1 0 ((two_body_sim1, [1]), arrays_zero 2 1)
              = (store_particle 0 0 p (arrays_zero 2 1), st2)"
    using l by blast
  have "particle_ltte (two_body_env True) 0 1 (two_body_sim1, [1]) =
     (Inr \<lparr>p_m = 1, p_x = 0, p_y = 0, p_z = 173, p_vx = 0, p_vy = 0, p_vz = 0\<rparr>,
      free_integrate 2 two_body_sim1, [1, 5001 / 5000, 2])"
    by (simp add: run_defs)
  with r have "p = \<lparr>p_m = 1, p_x = 0, p_y = 0, p_z = 173, p_vx = 0, p_vy = 0, p_vz = 0\<rparr>"
    by simp
  with b c r t s show ?thesis by simp
qed


end
